theory Spec2Isabelle
  imports Complex_Main
begin

section \<open>Values\<close>

text \<open>
  A Python float is modelled by the real number it denotes, or by one of the three
  special values. Rounding is not modelled: a decimal literal stands for its exact value.
  Comparisons follow IEEE 754: every comparison with \<open>nan\<close> is false.
\<close>

datatype pyfloat = Finite real | PosInf | NegInf | NaN

fun flt_less :: "pyfloat \<Rightarrow> pyfloat \<Rightarrow> bool" where
  "flt_less (Finite a) (Finite b) = (a < b)"
| "flt_less (Finite a) PosInf = True"
| "flt_less NegInf (Finite b) = True"
| "flt_less NegInf PosInf = True"
| "flt_less _ _ = False"

definition flt_greater :: "pyfloat \<Rightarrow> pyfloat \<Rightarrow> bool" where
  "flt_greater a b = flt_less b a"

text \<open>True division \<open>a / b\<close> of two floats, used only under the guard \<open>b > 0\<close>.\<close>

fun flt_div_pos :: "pyfloat \<Rightarrow> pyfloat \<Rightarrow> pyfloat" where
  "flt_div_pos (Finite a) (Finite b) = Finite (a / b)"
| "flt_div_pos (Finite a) PosInf = Finite 0"
| "flt_div_pos PosInf (Finite b) = PosInf"
| "flt_div_pos NegInf (Finite b) = NegInf"
| "flt_div_pos _ _ = NaN"

text \<open>A decoded JSON value, as \<open>request.get_json()\<close> hands it to a handler.\<close>

datatype jval =
    JNull
  | JBool bool
  | JInt int
  | JFloat pyfloat
  | JStr string
  | JArr "jval list"
  | JObj "(string \<times> jval) list"

text \<open>The body of a JSON request is a decoded JSON object: a dict from field names to values.\<close>

type_synonym body = "string \<rightharpoonup> jval"

datatype py_error = TypeError | ValueError | OverflowError | IndexError | KeyError jval

text \<open>Python truthiness, as used by \<open>if supabase and user_id\<close>.\<close>

fun truthy :: "jval \<Rightarrow> bool" where
  "truthy JNull = False"
| "truthy (JBool b) = b"
| "truthy (JInt i) = (i \<noteq> 0)"
| "truthy (JFloat f) = (f \<noteq> Finite 0)"
| "truthy (JStr s) = (s \<noteq> [])"
| "truthy (JArr xs) = (xs \<noteq> [])"
| "truthy (JObj kvs) = (kvs \<noteq> [])"

section \<open>The built-in conversions \<open>float()\<close> and \<open>int()\<close>\<close>

text \<open>
  Text is a list of bytes (UTF-8). The two conversions read ASCII text: surrounding
  white space is dropped, then an optional sign, then digits in which single underscores
  may separate digits.
\<close>

definition is_space :: "char \<Rightarrow> bool" where
  "is_space c = (of_char c \<in> {9, 10, 11, 12, 13, 28, 29, 30, 31, 32 :: nat})"

definition strip :: "string \<Rightarrow> string" where
  "strip s = rev (dropWhile is_space (rev (dropWhile is_space s)))"

definition is_digit :: "char \<Rightarrow> bool" where
  "is_digit c = (48 \<le> (of_char c :: nat) \<and> (of_char c :: nat) \<le> 57)"

definition digit_val :: "char \<Rightarrow> nat" where
  "digit_val c = of_char c - 48"

fun digitpart :: "string \<Rightarrow> bool" where
  "digitpart [] = False"
| "digitpart [c] = is_digit c"
| "digitpart (c # d # cs) =
     (is_digit c \<and> (if d = CHR ''_'' then digitpart cs else digitpart (d # cs)))"

definition digits_val :: "string \<Rightarrow> nat" where
  "digits_val s = foldl (\<lambda>n c. 10 * n + digit_val c) 0 (filter is_digit s)"

definition to_lower :: "char \<Rightarrow> char" where
  "to_lower c = (if 65 \<le> (of_char c :: nat) \<and> (of_char c :: nat) \<le> 90
                 then char_of (of_char c + 32 :: nat) else c)"

text \<open>\<open>(negative, rest)\<close>: an optional leading sign.\<close>

fun split_sign :: "string \<Rightarrow> bool \<times> string" where
  "split_sign [] = (False, [])"
| "split_sign (c # cs) =
     (if c = CHR ''-'' then (True, cs) else if c = CHR ''+'' then (False, cs) else (False, c # cs))"

text \<open>An exponent \<open>[sign] digitpart\<close>, after the letter e.\<close>

definition parse_exponent :: "string \<Rightarrow> int option" where
  "parse_exponent s =
     (case split_sign s of (neg, ds) \<Rightarrow>
        if digitpart ds then Some (if neg then - int (digits_val ds) else int (digits_val ds))
        else None)"

text \<open>A mantissa \<open>[digitpart] "." digitpart | digitpart ["."]\<close>.\<close>

definition parse_mantissa :: "string \<Rightarrow> real option" where
  "parse_mantissa m =
     (let ip = takeWhile (\<lambda>c. c \<noteq> CHR ''.'') m;
          rest = dropWhile (\<lambda>c. c \<noteq> CHR ''.'') m
      in if rest = [] then (if digitpart ip then Some (real (digits_val ip)) else None)
         else (let fp = tl rest;
                   frac = real (digits_val fp) / 10 ^ length (filter is_digit fp)
               in if ip = [] \<and> digitpart fp then Some frac
                  else if digitpart ip \<and> (fp = [] \<or> digitpart fp)
                  then Some (real (digits_val ip) + frac)
                  else None))"

definition is_exp_mark :: "char \<Rightarrow> bool" where
  "is_exp_mark c = (c = CHR ''e'' \<or> c = CHR ''E'')"

definition pow10 :: "int \<Rightarrow> real" where
  "pow10 e = (if 0 \<le> e then 10 ^ nat e else 1 / 10 ^ nat (- e))"

definition parse_floatnumber :: "string \<Rightarrow> real option" where
  "parse_floatnumber s =
     (let m = takeWhile (\<lambda>c. \<not> is_exp_mark c) s;
          rest = dropWhile (\<lambda>c. \<not> is_exp_mark c) s
      in case parse_mantissa m of
           None \<Rightarrow> None
         | Some x \<Rightarrow>
             if rest = [] then Some x
             else (case parse_exponent (tl rest) of
                     None \<Rightarrow> None
                   | Some e \<Rightarrow> Some (x * pow10 e)))"

definition str_to_float :: "string \<Rightarrow> pyfloat option" where
  "str_to_float s =
     (case split_sign (strip s) of (neg, t) \<Rightarrow>
        let l = map to_lower t
        in if l = ''inf'' \<or> l = ''infinity'' then Some (if neg then NegInf else PosInf)
           else if l = ''nan'' then Some NaN
           else (case parse_floatnumber t of
                   None \<Rightarrow> None
                 | Some x \<Rightarrow> Some (Finite (if neg then - x else x))))"

definition str_to_int :: "string \<Rightarrow> int option" where
  "str_to_int s =
     (case split_sign (strip s) of (neg, t) \<Rightarrow>
        if digitpart t then Some (if neg then - int (digits_val t) else int (digits_val t))
        else None)"

text \<open>
  \<open>float(v)\<close>: numbers and booleans convert, text is parsed, everything else is a
  \<open>TypeError\<close>. An integer too large for a double is an \<open>OverflowError\<close>.
\<close>

fun py_float :: "jval \<Rightarrow> py_error + pyfloat" where
  "py_float (JFloat f) = Inr f"
| "py_float (JInt i) =
     (if \<bar>i\<bar> < 2 ^ 1024 - 2 ^ 970 then Inr (Finite (of_int i)) else Inl OverflowError)"
| "py_float (JBool b) = Inr (Finite (if b then 1 else 0))"
| "py_float (JStr s) = (case str_to_float s of None \<Rightarrow> Inl ValueError | Some f \<Rightarrow> Inr f)"
| "py_float _ = Inl TypeError"

text \<open>\<open>int(v)\<close>: a float is truncated towards zero.\<close>

fun py_int :: "jval \<Rightarrow> py_error + int" where
  "py_int (JInt i) = Inr i"
| "py_int (JBool b) = Inr (if b then 1 else 0)"
| "py_int (JFloat (Finite r)) = Inr (if 0 \<le> r then \<lfloor>r\<rfloor> else \<lceil>r\<rceil>)"
| "py_int (JFloat NaN) = Inl ValueError"
| "py_int (JFloat _) = Inl OverflowError"
| "py_int (JStr s) = (case str_to_int s of None \<Rightarrow> Inl ValueError | Some i \<Rightarrow> Inr i)"
| "py_int _ = Inl TypeError"

section \<open>Severity of a detected disease\<close>

definition get_severity_level :: "pyfloat \<Rightarrow> string \<Rightarrow> string" where
  "get_severity_level confidence disease =
     (if disease = ''Healthy'' then ''Good''
      else if flt_greater confidence (Finite 0.8)
           then (if disease \<in> set [''Powdery'', ''Rust''] then ''High'' else ''Medium'')
      else if flt_greater confidence (Finite 0.6) then ''Medium''
      else ''Low'')"

section \<open>The process: loaded models, store client, library functions\<close>

type_synonym row = "(string \<times> jval) list"

record upload =
  filename :: string
  content :: string

text \<open>
  What a handler reads but does not change. The fitted models and the scalers are
  opaque: each inference function stands for the chain of library calls a handler makes
  on the assembled features, and may raise. The formatting functions are Python's own.
\<close>

record env =
  models :: "string set"
  supabase :: bool
  crop_inference :: "pyfloat list \<Rightarrow> py_error + int \<times> pyfloat"
  disease_inference :: "upload \<Rightarrow> py_error + pyfloat list"
  yield_inference :: "jval list \<Rightarrow> py_error + pyfloat"
  fertilizer_inference :: "row \<Rightarrow> py_error + string \<times> pyfloat"
  str_of :: "jval \<Rightarrow> string"
  format_2f :: "pyfloat \<Rightarrow> string"
  format_pct1 :: "pyfloat \<Rightarrow> string"
  isoformat :: "nat \<Rightarrow> string"
  str_exc :: "py_error \<Rightarrow> string"

text \<open>
  What a handler changes: the tables of the store, the clock, and a trace of the calls
  made to the store and to \<open>time.sleep\<close>. Whether the next call to the store raises is
  decided by \<open>store_raises\<close> at the number of calls made so far; a call that raises
  writes nothing. Messages printed to the console are not modelled.
\<close>

datatype event =
    Inserted string row
  | InsertFailed string
  | Selected string
  | SelectFailed string
  | Slept nat

record world =
  tables :: "string \<Rightarrow> row list"
  store_raises :: "nat \<Rightarrow> bool"
  calls :: nat
  clock :: nat
  trace :: "event list"

text \<open>\<open>supabase.table(t).insert(r).execute()\<close>: \<open>True\<close> when the call returns.\<close>

definition store_insert :: "string \<Rightarrow> row \<Rightarrow> world \<Rightarrow> bool \<times> world" where
  "store_insert t r w =
     (if store_raises w (calls w)
      then (False, w\<lparr>calls := Suc (calls w), trace := trace w @ [InsertFailed t]\<rparr>)
      else (True, w\<lparr>tables := (tables w)(t := tables w t @ [r]),
                      calls := Suc (calls w), trace := trace w @ [Inserted t r]\<rparr>))"

definition sleep :: "nat \<Rightarrow> world \<Rightarrow> world" where
  "sleep s w = w\<lparr>clock := clock w + s, trace := trace w @ [Slept s]\<rparr>"

text \<open>Text order on the \<open>created_at\<close> column, for \<open>order('created_at', desc=True)\<close>.\<close>

fun str_less :: "string \<Rightarrow> string \<Rightarrow> bool" where
  "str_less [] [] = False"
| "str_less [] (y # ys) = True"
| "str_less (x # xs) [] = False"
| "str_less (x # xs) (y # ys) =
     ((of_char x :: nat) < of_char y \<or> (x = y \<and> str_less xs ys))"

definition created_at_of :: "row \<Rightarrow> string" where
  "created_at_of r = (case map_of r ''created_at'' of Some (JStr s) \<Rightarrow> s | _ \<Rightarrow> [])"

fun insert_desc :: "row \<Rightarrow> row list \<Rightarrow> row list" where
  "insert_desc r [] = [r]"
| "insert_desc r (x # xs) =
     (if str_less (created_at_of x) (created_at_of r) then r # x # xs else x # insert_desc r xs)"

definition order_desc :: "row list \<Rightarrow> row list" where
  "order_desc rs = foldr insert_desc rs []"

text \<open>
  \<open>supabase.table(t).select('*').eq('user_id', u).order('created_at', desc=True).limit(10).execute()\<close>:
  \<open>None\<close> when the call raises, otherwise the rows in \<open>.data\<close>.
\<close>

definition recent_rows :: "string \<Rightarrow> row list \<Rightarrow> row list" where
  "recent_rows u rs =
     take 10 (order_desc (filter (\<lambda>r. map_of r ''user_id'' = Some (JStr u)) rs))"

definition store_select :: "string \<Rightarrow> string \<Rightarrow> world \<Rightarrow> row list option \<times> world" where
  "store_select t u w =
     (if store_raises w (calls w)
      then (None, w\<lparr>calls := Suc (calls w), trace := trace w @ [SelectFailed t]\<rparr>)
      else (Some (recent_rows u (tables w t)),
            w\<lparr>calls := Suc (calls w), trace := trace w @ [Selected t]\<rparr>))"

section \<open>Responses\<close>

text \<open>\<open>jsonify(d), code\<close>; a handler that returns \<open>jsonify(d)\<close> alone answers 200.\<close>

type_synonym response = "nat \<times> row"

definition status :: "response \<Rightarrow> nat" where
  "status r = fst r"

definition payload :: "response \<Rightarrow> string \<Rightarrow> jval option" where
  "payload r k = map_of (snd r) k"

definition missing_field :: "string \<Rightarrow> response" where
  "missing_field field =
     (400, [(''success'', JBool False), (''error'', JStr (''Missing field: '' @ field))])"

definition not_available :: "string \<Rightarrow> response" where
  "not_available msg = (500, [(''success'', JBool False), (''error'', JStr msg)])"

text \<open>The handler's last \<open>except Exception as e\<close>.\<close>

definition uncaught :: "env \<Rightarrow> py_error \<Rightarrow> response" where
  "uncaught env e = (500, [(''success'', JBool False), (''error'', JStr (str_exc env e))])"

section \<open>Steps shared by the handlers\<close>

text \<open>The loop over \<open>required_fields\<close>: the first field that is not in the body.\<close>

fun first_missing :: "string list \<Rightarrow> body \<Rightarrow> string option" where
  "first_missing [] data = None"
| "first_missing (field # others) data =
     (if data field = None then Some field else first_missing others data)"

definition try_then :: "py_error + 'a \<Rightarrow> ('a \<Rightarrow> py_error + 'b) \<Rightarrow> py_error + 'b" where
  "try_then m f = (case m of Inl e \<Rightarrow> Inl e | Inr x \<Rightarrow> f x)"

text \<open>\<open>data[k]\<close>, \<open>float(data[k])\<close> and \<open>int(data[k])\<close>.\<close>

definition data_item :: "body \<Rightarrow> string \<Rightarrow> py_error + jval" where
  "data_item data k = (case data k of None \<Rightarrow> Inl (KeyError (JStr k)) | Some v \<Rightarrow> Inr v)"

definition float_item :: "body \<Rightarrow> string \<Rightarrow> py_error + pyfloat" where
  "float_item data k = try_then (data_item data k) py_float"

definition int_item :: "body \<Rightarrow> string \<Rightarrow> py_error + int" where
  "int_item data k = try_then (data_item data k) py_int"

definition truthy_opt :: "jval option \<Rightarrow> bool" where
  "truthy_opt u = (case u of None \<Rightarrow> False | Some v \<Rightarrow> truthy v)"

definition user_id_value :: "jval option \<Rightarrow> jval" where
  "user_id_value u = (case u of None \<Rightarrow> JNull | Some v \<Rightarrow> v)"

text \<open>
  The primary handlers' \<open>for attempt in range(max_retries)\<close>: leave the loop at the first
  insert that returns; after a failure sleep one second, except after the last attempt.
  The row is built inside the \<open>try\<close>, with the time of the attempt.
\<close>

fun insert_attempts :: "nat list \<Rightarrow> nat \<Rightarrow> env \<Rightarrow> string \<Rightarrow> (string \<Rightarrow> row) \<Rightarrow> world \<Rightarrow> world" where
  "insert_attempts [] max_retries env t mk w = w"
| "insert_attempts (attempt # rest) max_retries env t mk w =
     (case store_insert t (mk (isoformat env (clock w))) w of
        (True, w') \<Rightarrow> w'
      | (False, w') \<Rightarrow>
          if attempt < max_retries - 1
          then insert_attempts rest max_retries env t mk (sleep 1 w')
          else insert_attempts rest max_retries env t mk w')"

definition save_with_retry :: "env \<Rightarrow> jval option \<Rightarrow> string \<Rightarrow> (string \<Rightarrow> row) \<Rightarrow> world \<Rightarrow> world" where
  "save_with_retry env user_id t mk w =
     (if supabase env \<and> truthy_opt user_id
      then (let max_retries = 3 in insert_attempts [0..<max_retries] max_retries env t mk w)
      else w)"

text \<open>The duplicate handlers' single \<open>try\<close> around the insert.\<close>

definition save_once :: "env \<Rightarrow> jval option \<Rightarrow> string \<Rightarrow> (string \<Rightarrow> row) \<Rightarrow> world \<Rightarrow> world" where
  "save_once env user_id t mk w =
     (if supabase env \<and> truthy_opt user_id
      then snd (store_insert t (mk (isoformat env (clock w))) w)
      else w)"

section \<open>Constants\<close>

definition CROP_DICT :: "(int \<times> string) list" where
  "CROP_DICT =
     [(1, ''Rice''), (2, ''Maize''), (3, ''Jute''), (4, ''Cotton''),
      (5, ''Coconut''), (6, ''Papaya''), (7, ''Orange''), (8, ''Apple''),
      (9, ''Muskmelon''), (10, ''Watermelon''), (11, ''Grapes''), (12, ''Mango''),
      (13, ''Banana''), (14, ''Pomegranate''), (15, ''Lentil''), (16, ''Blackgram''),
      (17, ''Mungbean''), (18, ''Mothbeans''), (19, ''Pigeonpeas''), (20, ''Kidneybeans''),
      (21, ''Chickpea''), (22, ''Coffee'')]"

definition DISEASE_LABELS :: "(nat \<times> string) list" where
  "DISEASE_LABELS = [(0, ''Healthy''), (1, ''Powdery''), (2, ''Rust'')]"

section \<open>Advisory texts\<close>

text \<open>\<open>d[k]\<close> on a dict literal, and the text an f-string puts for a value.\<close>

definition dict_item :: "row \<Rightarrow> string \<Rightarrow> py_error + jval" where
  "dict_item d k = (case map_of d k of None \<Rightarrow> Inl (KeyError (JStr k)) | Some v \<Rightarrow> Inr v)"

definition format_value :: "env \<Rightarrow> jval \<Rightarrow> string" where
  "format_value env v = (case v of JStr s \<Rightarrow> s | _ \<Rightarrow> str_of env v)"

definition treatments :: "(string \<times> row) list" where
  "treatments =
     [(''Healthy'',
       [(''advice'', JStr (''Your plant appears healthy! Continue with regular care and monitoring.'')),
        (''products'', JArr
          [JObj
             [(''name'', JStr (''Balanced NPK Fertilizer'')),
              (''type'', JStr (''Preventive'')),
              (''application'', JStr (''Apply as per crop requirements''))]]),
        (''prevention'', JArr
          [JStr (''Maintain proper plant spacing for air circulation''),
           JStr (''Water early in the day to allow leaves to dry''),
           JStr (''Remove any dead or diseased plant material''),
           JStr (''Monitor plants regularly for early disease detection'')])]),
      (''Powdery'',
       [(''advice'', JStr (''Powdery mildew detected. This fungal disease appears as white powdery spots on leaves. Treat immediately to prevent spread.'')),
        (''products'', JArr
          [JObj
             [(''name'', JStr (''Sulfur-based Fungicide'')),
              (''type'', JStr (''Fungicide'')),
              (''application'', JStr (''Spray on affected areas, repeat every 7-14 days''))],
           JObj
             [(''name'', JStr (''Neem Oil'')),
              (''type'', JStr (''Organic'')),
              (''application'', JStr (''Mix with water and spray weekly''))],
           JObj
             [(''name'', JStr (''Baking Soda Solution'')),
              (''type'', JStr (''Home Remedy'')),
              (''application'', JStr (''1 tablespoon per gallon of water, spray leaves''))]]),
        (''prevention'', JArr
          [JStr (''Improve air circulation around plants''),
           JStr (''Avoid overhead watering''),
           JStr (''Remove and destroy infected plant parts''),
           JStr (''Apply preventive fungicide during humid conditions''),
           JStr (''Plant resistant varieties when available'')])]),
      (''Rust'',
       [(''advice'', JStr (''Rust disease detected. This fungal infection causes orange-brown pustules on leaves. Early treatment is crucial.'')),
        (''products'', JArr
          [JObj
             [(''name'', JStr (''Copper-based Fungicide'')),
              (''type'', JStr (''Fungicide'')),
              (''application'', JStr (''Apply every 7-10 days until symptoms disappear''))],
           JObj
             [(''name'', JStr (''Mancozeb'')),
              (''type'', JStr (''Fungicide'')),
              (''application'', JStr (''Spray thoroughly covering all leaf surfaces''))],
           JObj
             [(''name'', JStr (''Triazole Fungicides'')),
              (''type'', JStr (''Systemic'')),
              (''application'', JStr (''Follow manufacturer instructions''))]]),
        (''prevention'', JArr
          [JStr (''Remove infected leaves immediately''),
           JStr (''Avoid working with plants when wet''),
           JStr (''Ensure good drainage''),
           JStr (''Space plants properly for air flow''),
           JStr (''Rotate crops annually''),
           JStr (''Use disease-free seeds and transplants'')])])]"

definition treatment_default :: row where
  "treatment_default =
     [(''advice'', JStr (''Disease detected. Consult with agricultural extension services for proper diagnosis and treatment.'')),
      (''products'', JArr []),
      (''prevention'', JArr
        [JStr (''Maintain good plant hygiene''),
         JStr (''Monitor plants regularly'')])]"

definition get_treatment_advice :: "string \<Rightarrow> row" where
  "get_treatment_advice disease =
     (case map_of treatments disease of Some t \<Rightarrow> t | None \<Rightarrow> treatment_default)"

record base_info =
  description :: string
  usage :: string
  application :: string

definition fertilizer_info :: "(string \<times> base_info) list" where
  "fertilizer_info =
     [(''Urea'',
       \<lparr>description = ''High nitrogen fertilizer (46% N)'',
        usage = ''Promotes vegetative growth and leaf development'',
        application = ''Apply before planting or during early growth stages''\<rparr>),
      (''DAP'',
       \<lparr>description = ''Diammonium Phosphate (18% N, 46% P)'',
        usage = ''Excellent for root development and early plant growth'',
        application = ''Apply at planting time for best results''\<rparr>),
      (''14-35-14'',
       \<lparr>description = ''Balanced fertilizer with high phosphorus'',
        usage = ''Good for flowering and fruit development'',
        application = ''Apply during flowering stage''\<rparr>),
      (''28-28'',
       \<lparr>description = ''Equal nitrogen and phosphorus'',
        usage = ''Balanced nutrition for overall plant health'',
        application = ''Can be used throughout growing season''\<rparr>),
      (''17-17-17'',
       \<lparr>description = ''Complete balanced fertilizer'',
        usage = ''All-purpose nutrition for healthy growth'',
        application = ''Suitable for most crops and growth stages''\<rparr>),
      (''20-20'',
       \<lparr>description = ''High nitrogen-phosphorus blend'',
        usage = ''Promotes both vegetative and root growth'',
        application = ''Best for early to mid-season application''\<rparr>),
      (''10-26-26'',
       \<lparr>description = ''Low nitrogen, high phosphorus and potassium'',
        usage = ''Excellent for fruit and flower development'',
        application = ''Apply during reproductive stages''\<rparr>)]"

definition bullet :: "string \<Rightarrow> string" where
  "bullet colour = [CHR 0xE2, CHR 0x80, CHR 0xA2] @ '' '' @ colour"

definition red :: string where
  "red = [CHR 0xF0, CHR 0x9F, CHR 0x94, CHR 0xB4]"

definition yellow :: string where
  "yellow = [CHR 0xF0, CHR 0x9F, CHR 0x9F, CHR 0xA1]"

definition green :: string where
  "green = [CHR 0xF0, CHR 0x9F, CHR 0x9F, CHR 0xA2]"

definition nitrogen_low :: string where
  "nitrogen_low = bullet red @ '' Low nitrogen detected - this fertilizer will help boost leaf growth\<newline>''"

definition nitrogen_high :: string where
  "nitrogen_high = bullet yellow @ '' High nitrogen levels - monitor to prevent excessive vegetative growth\<newline>''"

definition nitrogen_adequate :: string where
  "nitrogen_adequate = bullet green @ '' Nitrogen levels are adequate\<newline>''"

definition phosphorus_low :: string where
  "phosphorus_low = bullet red @ '' Low phosphorus - will improve root development and flowering\<newline>''"

definition phosphorus_good :: string where
  "phosphorus_good = bullet green @ '' Good phosphorus levels - maintain current status\<newline>''"

definition phosphorus_moderate :: string where
  "phosphorus_moderate = bullet yellow @ '' Moderate phosphorus levels\<newline>''"

definition potassium_low :: string where
  "potassium_low = bullet red @ '' Low potassium - will enhance disease resistance and fruit quality\<newline>''"

definition potassium_excellent :: string where
  "potassium_excellent = bullet green @ '' Excellent potassium levels\<newline>''"

definition potassium_moderate :: string where
  "potassium_moderate = bullet yellow @ '' Moderate potassium levels\<newline>''"

text \<open>The four opening lines of the advice: the fertilizer and its entry in the table.\<close>

definition advice_opening :: "string \<Rightarrow> string" where
  "advice_opening fertilizer =
     (let info = (case map_of fertilizer_info fertilizer of
                    Some i \<Rightarrow> i
                  | None \<Rightarrow> \<lparr>description = fertilizer @ '' fertilizer'',
                              usage = ''Follow manufacturer guidelines'',
                              application = ''Apply according to crop requirements''\<rparr>)
      in [CHR 0xF0, CHR 0x9F, CHR 0x8C, CHR 0xBE] @ '' Recommended Fertilizer: '' @ fertilizer @ ''\<newline>\<newline>''
         @ [CHR 0xF0, CHR 0x9F, CHR 0x93, CHR 0x8B] @ '' Description: '' @ description info @ ''\<newline>''
         @ [CHR 0xF0, CHR 0x9F, CHR 0x8E, CHR 0xAF] @ '' Usage: '' @ usage info @ ''\<newline>''
         @ [CHR 0xE2, CHR 0x8F, CHR 0xB0] @ '' Application: '' @ application info @ ''\<newline>\<newline>'')"

definition soil_heading :: string where
  "soil_heading = [CHR 0xF0, CHR 0x9F, CHR 0x93, CHR 0x8A] @ '' Soil Analysis Recommendations:\<newline>''"

text \<open>The two closing lines: crop, soil, temperature and humidity as the request gave them.\<close>

definition advice_closing :: "env \<Rightarrow> jval \<Rightarrow> jval \<Rightarrow> jval \<Rightarrow> jval \<Rightarrow> string" where
  "advice_closing env crop_type soil_type temparature humidity =
     ''\<newline>'' @ [CHR 0xF0, CHR 0x9F, CHR 0x8C, CHR 0xB1] @ '' Crop: '' @ format_value env crop_type
       @ '' | '' @ [CHR 0xF0, CHR 0x9F, CHR 0x8F, CHR 0x94, CHR 0xEF, CHR 0xB8, CHR 0x8F] @ '' Soil: ''
       @ format_value env soil_type @ ''\<newline>''
       @ [CHR 0xF0, CHR 0x9F, CHR 0x8C, CHR 0xA1, CHR 0xEF, CHR 0xB8, CHR 0x8F] @ '' Temperature: ''
       @ format_value env temparature
       @ [CHR 0xC2, CHR 0xB0] @ ''C | '' @ [CHR 0xF0, CHR 0x9F, CHR 0x92, CHR 0xA7] @ '' Humidity: ''
       @ format_value env humidity @ ''%\<newline>''"

text \<open>
  \<open>get_fertilizer_advice(fertilizer, input_data)\<close>; the function has the same text in
  \<open>app.py\<close> and in \<open>routes/additional_routes.py\<close>.
\<close>

definition get_fertilizer_advice :: "env \<Rightarrow> string \<Rightarrow> body \<Rightarrow> py_error + string" where
  "get_fertilizer_advice env fertilizer input_data =
     (let advice = advice_opening fertilizer in
      try_then (float_item input_data ''Nitrogen'') (\<lambda>nitrogen.
      try_then (float_item input_data ''Phosphorous'') (\<lambda>phosphorous.
      try_then (float_item input_data ''Potassium'') (\<lambda>potassium.
      let advice = advice @ soil_heading;
          advice = advice @
            (if flt_less nitrogen (Finite 20) then nitrogen_low
             else if flt_greater nitrogen (Finite 50) then nitrogen_high
             else nitrogen_adequate);
          advice = advice @
            (if flt_less phosphorous (Finite 15) then phosphorus_low
             else if flt_greater phosphorous (Finite 40) then phosphorus_good
             else phosphorus_moderate);
          advice = advice @
            (if flt_less potassium (Finite 20) then potassium_low
             else if flt_greater potassium (Finite 50) then potassium_excellent
             else potassium_moderate)
      in try_then (data_item input_data ''Crop Type'') (\<lambda>crop_type.
         try_then (data_item input_data ''Soil Type'') (\<lambda>soil_type.
         try_then (data_item input_data ''Temparature'') (\<lambda>temparature.
         try_then (data_item input_data ''Humidity '') (\<lambda>humidity.
         Inr (advice @ advice_closing env crop_type soil_type temparature humidity)))))))))"

section \<open>Crop recommendation\<close>

definition crop_required_fields :: "string list" where
  "crop_required_fields =
     [''nitrogen'', ''phosphorus'', ''potassium'', ''temperature'', ''humidity'', ''ph'', ''rainfall'']"

text \<open>The body of the handler's \<open>try\<close>: \<open>Inl e\<close> when it raises \<open>e\<close>.\<close>

definition predict_crop_try :: "env \<Rightarrow> body \<Rightarrow> world \<Rightarrow> py_error + response \<times> world" where
  "predict_crop_try env data w =
     (case first_missing crop_required_fields data of
        Some field \<Rightarrow> Inr (missing_field field, w)
      | None \<Rightarrow>
          try_then (float_item data ''nitrogen'') (\<lambda>N.
          try_then (float_item data ''phosphorus'') (\<lambda>P.
          try_then (float_item data ''potassium'') (\<lambda>K.
          try_then (float_item data ''temperature'') (\<lambda>temp.
          try_then (float_item data ''humidity'') (\<lambda>humidity.
          try_then (float_item data ''ph'') (\<lambda>ph.
          try_then (float_item data ''rainfall'') (\<lambda>rainfall.
          let user_id = data ''user_id'' in
          if ''crop_model'' \<notin> models env
          then Inr (not_available ''Crop recommendation model not available'', w)
          else
            try_then (crop_inference env [N, P, K, temp, humidity, ph, rainfall])
              (\<lambda>(prediction, confidence).
            case map_of CROP_DICT prediction of
              Some recommended_crop \<Rightarrow>
                Inr ((200,
                      [(''success'', JBool True),
                       (''recommended_crop'', JStr recommended_crop),
                       (''confidence'', JFloat confidence),
                       (''message'', JStr (recommended_crop @ '' is the best crop for these conditions'')),
                       (''advice'', JStr
                          (''Based on your soil conditions (N:'' @ str_of env (JFloat N)
                           @ '', P:'' @ str_of env (JFloat P) @ '', K:'' @ str_of env (JFloat K)
                           @ '') and climate (temp:'' @ str_of env (JFloat temp)
                           @ [CHR 0xC2, CHR 0xB0] @ ''C, humidity:'' @ str_of env (JFloat humidity)
                           @ ''%, pH:'' @ str_of env (JFloat ph)
                           @ '', rainfall:'' @ str_of env (JFloat rainfall) @ ''mm), ''
                           @ recommended_crop @ '' is recommended with ''
                           @ format_pct1 env confidence @ '' confidence.''))]),
                     save_with_retry env user_id ''crop_recommendations''
                       (\<lambda>created_at.
                          [(''user_id'', user_id_value user_id),
                           (''nitrogen'', JFloat N),
                           (''phosphorus'', JFloat P),
                           (''potassium'', JFloat K),
                           (''temperature'', JFloat temp),
                           (''humidity'', JFloat humidity),
                           (''ph_level'', JFloat ph),
                           (''rainfall'', JFloat rainfall),
                           (''recommended_crop'', JStr recommended_crop),
                           (''confidence_score'', JFloat confidence),
                           (''created_at'', JStr created_at)]) w)
            | None \<Rightarrow>
                Inr ((200,
                      [(''success'', JBool False),
                       (''message'', JStr ''Could not determine the best crop with the provided data.'')]),
                     w))))))))))"

definition predict_crop :: "env \<Rightarrow> body \<Rightarrow> world \<Rightarrow> response \<times> world" where
  "predict_crop env data w =
     (case predict_crop_try env data w of Inl e \<Rightarrow> (uncaught env e, w) | Inr rw \<Rightarrow> rw)"

section \<open>Disease detection\<close>

text \<open>
  The multipart request: the uploaded file under \<open>file\<close>, if any, and the form field
  \<open>user_id\<close>, if any. Saving the upload, reading the image, running the interpreter and
  removing the upload again are inside \<open>disease_inference\<close>; the files written and
  removed are not part of the state.
\<close>

record disease_request =
  file_part :: "upload option"
  form_user_id :: "string option"

text \<open>
  \<open>np.argmax\<close>: the position of the first largest entry, where a \<open>nan\<close> counts as
  largest; an empty vector raises.
\<close>

definition flt_le :: "pyfloat \<Rightarrow> pyfloat \<Rightarrow> bool" where
  "flt_le a b = (flt_less a b \<or> (a = b \<and> a \<noteq> NaN))"

fun argmax_from :: "pyfloat \<Rightarrow> nat \<Rightarrow> nat \<Rightarrow> pyfloat list \<Rightarrow> nat" where
  "argmax_from mp best i [] = best"
| "argmax_from mp best i (x # xs) =
     (if mp = NaN then best
      else if \<not> flt_le x mp then argmax_from x i (Suc i) xs
      else argmax_from mp best (Suc i) xs)"

definition argmax :: "pyfloat list \<Rightarrow> py_error + nat" where
  "argmax xs = (case xs of [] \<Rightarrow> Inl ValueError | x # rest \<Rightarrow> Inr (argmax_from x 0 1 rest))"

definition nth_item :: "'a list \<Rightarrow> nat \<Rightarrow> py_error + 'a" where
  "nth_item xs i = (if i < length xs then Inr (xs ! i) else Inl IndexError)"

definition disease_label :: "nat \<Rightarrow> py_error + string" where
  "disease_label predicted_class =
     (case map_of DISEASE_LABELS predicted_class of
        None \<Rightarrow> Inl (KeyError (JInt (int predicted_class)))
      | Some d \<Rightarrow> Inr d)"

definition detect_disease_try :: "env \<Rightarrow> disease_request \<Rightarrow> world \<Rightarrow> py_error + response \<times> world" where
  "detect_disease_try env req w =
     (case file_part req of
        None \<Rightarrow> Inr ((400, [(''success'', JBool False), (''error'', JStr ''No file uploaded'')]), w)
      | Some f \<Rightarrow>
          let user_id = map_option JStr (form_user_id req) in
          if filename f = []
          then Inr ((400, [(''success'', JBool False), (''error'', JStr ''No file selected'')]), w)
          else if ''disease_interpreter'' \<notin> models env
          then Inr (not_available ''Disease detection model not available'', w)
          else
            try_then (disease_inference env f) (\<lambda>predictions.
            try_then (argmax predictions) (\<lambda>predicted_class.
            try_then (nth_item predictions predicted_class) (\<lambda>confidence.
            try_then (disease_label predicted_class) (\<lambda>disease.
            let treatment_data = get_treatment_advice disease in
            try_then (dict_item treatment_data ''advice'') (\<lambda>treatment_advice.
            try_then (dict_item treatment_data ''products'') (\<lambda>recommended_products.
            try_then (dict_item treatment_data ''prevention'') (\<lambda>prevention_tips.
            Inr ((200,
                  [(''success'', JBool True),
                   (''disease'', JStr disease),
                   (''confidence'', JFloat confidence),
                   (''treatment_advice'', treatment_advice),
                   (''recommended_products'', recommended_products),
                   (''prevention_tips'', prevention_tips),
                   (''severity'', JStr (get_severity_level confidence disease))]),
                 save_with_retry env user_id ''disease_detections''
                   (\<lambda>created_at.
                      [(''user_id'', user_id_value user_id),
                       (''detected_disease'', JStr disease),
                       (''confidence_score'', JFloat confidence),
                       (''created_at'', JStr created_at)]) w)))))))))"

definition detect_disease :: "env \<Rightarrow> disease_request \<Rightarrow> world \<Rightarrow> response \<times> world" where
  "detect_disease env req w =
     (case detect_disease_try env req w of Inl e \<Rightarrow> (uncaught env e, w) | Inr rw \<Rightarrow> rw)"

section \<open>Crop yield prediction\<close>

definition yield_required_fields :: "string list" where
  "yield_required_fields =
     [''Year'', ''average_rain_fall_mm_per_year'', ''pesticides_tonnes'', ''avg_temp'', ''Area'', ''Item'']"

text \<open>The handler of \<open>app.py\<close>: \<open>Area\<close> is taken as it is.\<close>

definition predict_crop_yield_try :: "env \<Rightarrow> body \<Rightarrow> world \<Rightarrow> py_error + response \<times> world" where
  "predict_crop_yield_try env data w =
     (case first_missing yield_required_fields data of
        Some field \<Rightarrow> Inr (missing_field field, w)
      | None \<Rightarrow>
          if ''yield_model'' \<notin> models env
          then Inr (not_available ''Crop yield model not available'', w)
          else
            try_then (int_item data ''Year'') (\<lambda>year.
            try_then (float_item data ''average_rain_fall_mm_per_year'') (\<lambda>rainfall.
            try_then (float_item data ''pesticides_tonnes'') (\<lambda>pesticides.
            try_then (float_item data ''avg_temp'') (\<lambda>temp.
            try_then (data_item data ''Area'') (\<lambda>area.
            try_then (data_item data ''Item'') (\<lambda>crop_item.
            let user_id = data ''user_id'' in
            try_then (yield_inference env
                        [JInt year, JFloat rainfall, JFloat pesticides, JFloat temp, area, crop_item])
              (\<lambda>predicted_yield.
            Inr ((200,
                  [(''success'', JBool True),
                   (''predicted_yield'', JFloat predicted_yield),
                   (''crop_type'', crop_item),
                   (''area'', area),
                   (''message'', JStr
                      (''Predicted yield for '' @ format_value env crop_item @ '' in ''
                       @ format_value env area @ '': '' @ format_2f env predicted_yield @ '' hg/ha'')),
                   (''factors'', JObj
                      [(''year'', JInt year),
                       (''rainfall'', JFloat rainfall),
                       (''pesticides_used'', JFloat pesticides),
                       (''temperature'', JFloat temp),
                       (''country'', area)])]),
                 save_with_retry env user_id ''yield_predictions''
                   (\<lambda>created_at.
                      [(''user_id'', user_id_value user_id),
                       (''year'', JInt year),
                       (''average_rainfall'', JFloat rainfall),
                       (''pesticides_usage'', JFloat pesticides),
                       (''average_temperature'', JFloat temp),
                       (''area'', area),
                       (''crop_item'', crop_item),
                       (''predicted_yield'', JFloat predicted_yield),
                       (''created_at'', JStr created_at)]) w)))))))))"

definition predict_crop_yield :: "env \<Rightarrow> body \<Rightarrow> world \<Rightarrow> response \<times> world" where
  "predict_crop_yield env data w =
     (case predict_crop_yield_try env data w of Inl e \<Rightarrow> (uncaught env e, w) | Inr rw \<Rightarrow> rw)"

text \<open>The handler of \<open>routes/additional_routes.py\<close>: \<open>Area\<close> goes through \<open>float()\<close>.\<close>

definition additional_predict_crop_yield_try :: "env \<Rightarrow> body \<Rightarrow> world \<Rightarrow> py_error + response \<times> world" where
  "additional_predict_crop_yield_try env data w =
     (case first_missing yield_required_fields data of
        Some field \<Rightarrow> Inr (missing_field field, w)
      | None \<Rightarrow>
          if ''yield_model'' \<notin> models env
          then Inr (not_available ''Crop yield model not available'', w)
          else
            try_then (int_item data ''Year'') (\<lambda>year.
            try_then (float_item data ''average_rain_fall_mm_per_year'') (\<lambda>rainfall.
            try_then (float_item data ''pesticides_tonnes'') (\<lambda>pesticides.
            try_then (float_item data ''avg_temp'') (\<lambda>temp.
            try_then (float_item data ''Area'') (\<lambda>area.
            try_then (data_item data ''Item'') (\<lambda>crop_item.
            let user_id = data ''user_id'' in
            try_then (yield_inference env
                        [JInt year, JFloat rainfall, JFloat pesticides, JFloat temp, JFloat area, crop_item])
              (\<lambda>predicted_yield.
            Inr ((200,
                  [(''success'', JBool True),
                   (''predicted_yield'', JFloat predicted_yield),
                   (''crop_type'', crop_item),
                   (''area'', JFloat area),
                   (''yield_per_hectare'',
                      (if flt_greater area (Finite 0)
                       then JFloat (flt_div_pos predicted_yield area) else JInt 0)),
                   (''message'', JStr
                      (''Predicted yield for '' @ format_value env crop_item @ '': ''
                       @ format_2f env predicted_yield @ '' tons'')),
                   (''factors'', JObj
                      [(''year'', JInt year),
                       (''rainfall'', JFloat rainfall),
                       (''pesticides_used'', JFloat pesticides),
                       (''temperature'', JFloat temp)])]),
                 save_once env user_id ''crop_yield_predictions''
                   (\<lambda>created_at.
                      [(''user_id'', user_id_value user_id),
                       (''year'', JInt year),
                       (''rainfall'', JFloat rainfall),
                       (''pesticides_used'', JFloat pesticides),
                       (''temperature'', JFloat temp),
                       (''area'', JFloat area),
                       (''crop_type'', crop_item),
                       (''predicted_yield'', JFloat predicted_yield),
                       (''created_at'', JStr created_at)]) w)))))))))"

definition additional_predict_crop_yield :: "env \<Rightarrow> body \<Rightarrow> world \<Rightarrow> response \<times> world" where
  "additional_predict_crop_yield env data w =
     (case additional_predict_crop_yield_try env data w of
        Inl e \<Rightarrow> (uncaught env e, w) | Inr rw \<Rightarrow> rw)"

section \<open>Fertilizer recommendation\<close>

definition fertilizer_required_fields :: "string list" where
  "fertilizer_required_fields =
     [''Temparature'', ''Humidity '', ''Moisture'', ''Soil Type'', ''Crop Type'',
      ''Nitrogen'', ''Potassium'', ''Phosphorous'']"

text \<open>
  What the two fertilizer handlers share: validation, the availability check, the one-row
  frame, the prediction with its largest class probability, and the advice. The result
  carries the values the response and the stored row are built from.
\<close>

record fertilizer_result =
  temperature_of :: pyfloat
  humidity_of :: pyfloat
  moisture_of :: pyfloat
  soil_type_of :: jval
  crop_type_of :: jval
  nitrogen_of :: pyfloat
  potassium_of :: pyfloat
  phosphorous_of :: pyfloat
  predicted_fertilizer :: string
  confidence_of :: pyfloat
  fertilizer_advice :: string

definition fertilizer_response :: "fertilizer_result \<Rightarrow> response" where
  "fertilizer_response r =
     (200,
      [(''success'', JBool True),
       (''recommended_fertilizer'', JStr (predicted_fertilizer r)),
       (''confidence'', JFloat (confidence_of r)),
       (''advice'', JStr (fertilizer_advice r)),
       (''soil_analysis'', JObj
          [(''nitrogen'', JFloat (nitrogen_of r)),
           (''phosphorous'', JFloat (phosphorous_of r)),
           (''potassium'', JFloat (potassium_of r)),
           (''soil_type'', soil_type_of r),
           (''moisture'', JFloat (moisture_of r))]),
       (''conditions'', JObj
          [(''temperature'', JFloat (temperature_of r)),
           (''humidity'', JFloat (humidity_of r)),
           (''crop_type'', crop_type_of r)])])"

definition fertilizer_predict :: "env \<Rightarrow> body \<Rightarrow> py_error + response + fertilizer_result" where
  "fertilizer_predict env data =
     (case first_missing fertilizer_required_fields data of
        Some field \<Rightarrow> Inr (Inl (missing_field field))
      | None \<Rightarrow>
          if ''fertilizer_model'' \<notin> models env
          then Inr (Inl (not_available ''Fertilizer model not available''))
          else
            try_then (float_item data ''Temparature'') (\<lambda>temparature.
            try_then (float_item data ''Humidity '') (\<lambda>humidity.
            try_then (float_item data ''Moisture'') (\<lambda>moisture.
            try_then (data_item data ''Soil Type'') (\<lambda>soil_type.
            try_then (data_item data ''Crop Type'') (\<lambda>crop_type.
            try_then (float_item data ''Nitrogen'') (\<lambda>nitrogen.
            try_then (float_item data ''Potassium'') (\<lambda>potassium.
            try_then (float_item data ''Phosphorous'') (\<lambda>phosphorous.
            try_then (fertilizer_inference env
                        [(''Temparature'', JFloat temparature),
                         (''Humidity '', JFloat humidity),
                         (''Moisture'', JFloat moisture),
                         (''Soil Type'', soil_type),
                         (''Crop Type'', crop_type),
                         (''Nitrogen'', JFloat nitrogen),
                         (''Potassium'', JFloat potassium),
                         (''Phosphorous'', JFloat phosphorous)])
              (\<lambda>(fertilizer, confidence).
            try_then (get_fertilizer_advice env fertilizer data) (\<lambda>advice.
            Inr (Inr \<lparr>temperature_of = temparature, humidity_of = humidity,
                       moisture_of = moisture, soil_type_of = soil_type,
                       crop_type_of = crop_type, nitrogen_of = nitrogen,
                       potassium_of = potassium, phosphorous_of = phosphorous,
                       predicted_fertilizer = fertilizer, confidence_of = confidence,
                       fertilizer_advice = advice\<rparr>))))))))))))"

text \<open>The handler of \<open>app.py\<close>.\<close>

definition recommend_fertilizer :: "env \<Rightarrow> body \<Rightarrow> world \<Rightarrow> response \<times> world" where
  "recommend_fertilizer env data w =
     (case fertilizer_predict env data of
        Inl e \<Rightarrow> (uncaught env e, w)
      | Inr (Inl early) \<Rightarrow> (early, w)
      | Inr (Inr r) \<Rightarrow>
          (fertilizer_response r,
           save_with_retry env (data ''user_id'') ''fertilizer_recommendations''
             (\<lambda>created_at.
                [(''user_id'', user_id_value (data ''user_id'')),
                 (''temperature'', JFloat (temperature_of r)),
                 (''humidity'', JFloat (humidity_of r)),
                 (''moisture'', JFloat (moisture_of r)),
                 (''soil_type'', soil_type_of r),
                 (''crop_type'', crop_type_of r),
                 (''nitrogen'', JFloat (nitrogen_of r)),
                 (''potassium'', JFloat (potassium_of r)),
                 (''phosphorous'', JFloat (phosphorous_of r)),
                 (''recommended_fertilizer'', JStr (predicted_fertilizer r)),
                 (''confidence_score'', JFloat (confidence_of r)),
                 (''created_at'', JStr created_at)]) w))"

text \<open>The handler of \<open>routes/additional_routes.py\<close>.\<close>

definition additional_recommend_fertilizer :: "env \<Rightarrow> body \<Rightarrow> world \<Rightarrow> response \<times> world" where
  "additional_recommend_fertilizer env data w =
     (case fertilizer_predict env data of
        Inl e \<Rightarrow> (uncaught env e, w)
      | Inr (Inl early) \<Rightarrow> (early, w)
      | Inr (Inr r) \<Rightarrow>
          (fertilizer_response r,
           save_once env (data ''user_id'') ''fertilizer_recommendations''
             (\<lambda>created_at.
                [(''user_id'', user_id_value (data ''user_id'')),
                 (''temperature'', JFloat (temperature_of r)),
                 (''humidity'', JFloat (humidity_of r)),
                 (''moisture'', JFloat (moisture_of r)),
                 (''soil_type'', soil_type_of r),
                 (''crop_type'', crop_type_of r),
                 (''nitrogen'', JFloat (nitrogen_of r)),
                 (''potassium'', JFloat (potassium_of r)),
                 (''phosphorous'', JFloat (phosphorous_of r)),
                 (''recommended_fertilizer'', JStr (predicted_fertilizer r)),
                 (''confidence'', JFloat (confidence_of r)),
                 (''advice'', JStr (fertilizer_advice r)),
                 (''created_at'', JStr created_at)]) w))"

section \<open>History of a user\<close>

text \<open>One category: the rows of the query, or the empty list when the query raises.\<close>

definition category :: "string \<Rightarrow> string \<Rightarrow> world \<Rightarrow> row list \<times> world" where
  "category t user_id w =
     (case store_select t user_id w of
        (None, w') \<Rightarrow> ([], w')
      | (Some rows, w') \<Rightarrow> (rows, w'))"

definition get_user_history :: "env \<Rightarrow> string \<Rightarrow> world \<Rightarrow> response \<times> world" where
  "get_user_history env user_id w =
     (if \<not> supabase env then (not_available ''Database not configured'', w)
      else
        (case category ''crop_recommendations'' user_id w of (crops, w1) \<Rightarrow>
         case category ''disease_detections'' user_id w1 of (diseases, w2) \<Rightarrow>
         case category ''fertilizer_recommendations'' user_id w2 of (fertilizers, w3) \<Rightarrow>
         case category ''crop_yield_predictions'' user_id w3 of (yields, w4) \<Rightarrow>
         let history = [(''crop_recommendations'', crops),
                        (''disease_detections'', diseases),
                        (''fertilizer_recommendations'', fertilizers),
                        (''crop_yield_predictions'', yields)]
         in ((200,
              [(''success'', JBool True),
               (''user_id'', JStr user_id),
               (''history'', JObj (map (\<lambda>(k, rows). (k, JArr (map JObj rows))) history)),
               (''total_records'', JInt (int (sum_list (map (\<lambda>(k, rows). length rows) history))))]),
             w4)))"

section \<open>An example process and example requests\<close>

definition example_env :: env where
  "example_env =
     \<lparr>models = {''crop_model'', ''disease_interpreter'', ''yield_model'', ''fertilizer_model''},
      supabase = True,
      crop_inference = (\<lambda>features. Inr (1, Finite 0.9)),
      disease_inference = (\<lambda>f. Inr [Finite 0.1, Finite 0.2, Finite 0.7]),
      yield_inference = (\<lambda>features. Inr (Finite 36613)),
      fertilizer_inference = (\<lambda>frame. Inr (''Urea'', Finite 0.8)),
      str_of = (\<lambda>v. ''<value>''),
      format_2f = (\<lambda>x. ''<x.xx>''),
      format_pct1 = (\<lambda>x. ''<x.x%>''),
      isoformat = (\<lambda>t. ''2024-01-01T00:00:00''),
      str_exc = (\<lambda>e. ''<exception>'')\<rparr>"

definition example_world :: world where
  "example_world =
     \<lparr>tables = (\<lambda>t. []), store_raises = (\<lambda>n. False), calls = 0, clock = 0, trace = []\<rparr>"

definition example_crop_body :: body where
  "example_crop_body =
     [''nitrogen'' \<mapsto> JInt 90, ''phosphorus'' \<mapsto> JInt 42, ''potassium'' \<mapsto> JInt 43,
      ''temperature'' \<mapsto> JFloat (Finite 20.8), ''humidity'' \<mapsto> JFloat (Finite 82),
      ''ph'' \<mapsto> JFloat (Finite 6.5), ''rainfall'' \<mapsto> JFloat (Finite 202.9),
      ''user_id'' \<mapsto> JStr ''u1'']"

definition example_yield_body :: body where
  "example_yield_body =
     [''Year'' \<mapsto> JInt 2013, ''average_rain_fall_mm_per_year'' \<mapsto> JInt 1485,
      ''pesticides_tonnes'' \<mapsto> JInt 121, ''avg_temp'' \<mapsto> JFloat (Finite 16.37),
      ''Area'' \<mapsto> JStr ''Albania'', ''Item'' \<mapsto> JStr ''Maize'',
      ''user_id'' \<mapsto> JStr ''u1'']"

definition example_fertilizer_body :: body where
  "example_fertilizer_body =
     [''Temparature'' \<mapsto> JInt 26, ''Humidity '' \<mapsto> JInt 52, ''Moisture'' \<mapsto> JInt 38,
      ''Soil Type'' \<mapsto> JStr ''Sandy'', ''Crop Type'' \<mapsto> JStr ''Maize'',
      ''Nitrogen'' \<mapsto> JInt 10, ''Potassium'' \<mapsto> JInt 60, ''Phosphorous'' \<mapsto> JInt 30,
      ''user_id'' \<mapsto> JStr ''u1'']"

definition example_disease_request :: disease_request where
  "example_disease_request =
     \<lparr>file_part = Some \<lparr>filename = ''leaf.jpg'', content = []\<rparr>, form_user_id = Some ''u1''\<rparr>"

section \<open>Severity\<close>

lemma flt_greater_Finite [simp]: "flt_greater (Finite a) (Finite b) = (b < a)"
  by (simp add: flt_greater_def)

text \<open>
  Claim C6. The severity is a function of the confidence and the disease label alone:
  \<open>Healthy\<close> gives \<open>Good\<close> at every confidence; any other label gives \<open>High\<close> above 0.8
  when it is \<open>Powdery\<close> or \<open>Rust\<close> and \<open>Medium\<close> above 0.8 otherwise, \<open>Medium\<close> above 0.6,
  and \<open>Low\<close> in every remaining case. In particular \<open>Rust\<close> at 0.85 is \<open>High\<close>,
  \<open>Powdery\<close> at 0.65 is \<open>Medium\<close> and \<open>Rust\<close> at 0.3 is \<open>Low\<close>.
\<close>

theorem severity_level_cases:
  "get_severity_level c ''Healthy'' = ''Good'' \<and>
   (d \<noteq> ''Healthy'' \<and> flt_greater c (Finite 0.8) \<and> d \<in> {''Powdery'', ''Rust''}
      \<longrightarrow> get_severity_level c d = ''High'') \<and>
   (d \<noteq> ''Healthy'' \<and> flt_greater c (Finite 0.8) \<and> d \<notin> {''Powdery'', ''Rust''}
      \<longrightarrow> get_severity_level c d = ''Medium'') \<and>
   (d \<noteq> ''Healthy'' \<and> \<not> flt_greater c (Finite 0.8) \<and> flt_greater c (Finite 0.6)
      \<longrightarrow> get_severity_level c d = ''Medium'') \<and>
   (d \<noteq> ''Healthy'' \<and> \<not> flt_greater c (Finite 0.8) \<and> \<not> flt_greater c (Finite 0.6)
      \<longrightarrow> get_severity_level c d = ''Low'') \<and>
   get_severity_level (Finite 0.85) ''Rust'' = ''High'' \<and>
   get_severity_level (Finite 0.65) ''Powdery'' = ''Medium'' \<and>
   get_severity_level (Finite 0.3) ''Rust'' = ''Low''"
  by (simp add: get_severity_level_def)

theorem severity_level_cases_witness:
  "get_severity_level (Finite 0.9) ''Powdery'' = ''High'' \<and>
   get_severity_level PosInf ''Blight'' = ''Medium'' \<and>
   get_severity_level (Finite 0.7) ''Rust'' = ''Medium'' \<and>
   get_severity_level NaN ''Rust'' = ''Low''"
  using severity_level_cases [of "Finite 0.9" "''Powdery''"]
        severity_level_cases [of PosInf "''Blight''"]
        severity_level_cases [of "Finite 0.7" "''Rust''"]
        severity_level_cases [of NaN "''Rust''"]
  by (simp add: flt_greater_def)

section \<open>Validation of the required fields\<close>











section \<open>Fertilizer advice\<close>

lemma tier_exclusive: "a < b \<Longrightarrow> \<not> (flt_less x (Finite a) \<and> flt_greater x (Finite b))"
  by (cases x) (auto simp: flt_greater_def)

lemma tier_not_low: "flt_le (Finite a) x \<Longrightarrow> \<not> flt_less x (Finite a)"
  by (cases x) (auto simp: flt_le_def)

lemma tier_not_high: "flt_le x (Finite b) \<Longrightarrow> \<not> flt_greater x (Finite b)"
  by (cases x) (auto simp: flt_le_def flt_greater_def)

lemma nitrogen_lines_distinct: "distinct [nitrogen_low, nitrogen_high, nitrogen_adequate]"
  by (simp add: nitrogen_low_def nitrogen_high_def nitrogen_adequate_def
        bullet_def red_def yellow_def green_def)

lemma phosphorus_lines_distinct: "distinct [phosphorus_low, phosphorus_good, phosphorus_moderate]"
  by (simp add: phosphorus_low_def phosphorus_good_def phosphorus_moderate_def
        bullet_def red_def yellow_def green_def)

lemma potassium_lines_distinct: "distinct [potassium_low, potassium_excellent, potassium_moderate]"
  by (simp add: potassium_low_def potassium_excellent_def potassium_moderate_def
        bullet_def red_def yellow_def green_def)

lemma example_fertilizer_items:
  "float_item example_fertilizer_body ''Nitrogen'' = Inr (Finite 10)"
  "float_item example_fertilizer_body ''Phosphorous'' = Inr (Finite 30)"
  "float_item example_fertilizer_body ''Potassium'' = Inr (Finite 60)"
  "example_fertilizer_body ''Crop Type'' = Some (JStr ''Maize'')"
  "example_fertilizer_body ''Soil Type'' = Some (JStr ''Sandy'')"
  "example_fertilizer_body ''Temparature'' = Some (JInt 26)"
  "example_fertilizer_body ''Humidity '' = Some (JInt 52)"
  by (simp_all add: float_item_def data_item_def try_then_def example_fertilizer_body_def)

text \<open>
  Claim C7. The soil analysis in the fertilizer advice depends on the three nutrient
  values only, one line per nutrient, in the order nitrogen, phosphorous, potassium,
  between the heading and the closing lines. Nitrogen below 20 gives the low line, above
  50 the high line, from 20 to 50 inclusive the adequate line; phosphorous has the
  thresholds 15 and 40 (low, good above 40, moderate between); potassium has 20 and 50
  (low, excellent above 50, moderate between). The three lines of a nutrient differ from
  one another, so exactly one of them is in the advice.
\<close>

theorem fertilizer_advice_soil_lines:
  assumes n: "float_item data ''Nitrogen'' = Inr n"
    and p: "float_item data ''Phosphorous'' = Inr p"
    and k: "float_item data ''Potassium'' = Inr k"
    and rest: "data ''Crop Type'' = Some ct" "data ''Soil Type'' = Some st"
      "data ''Temparature'' = Some t" "data ''Humidity '' = Some h"
  shows "\<exists>ln lp lk.
     get_fertilizer_advice env fert data =
       Inr (advice_opening fert @ soil_heading @ ln @ lp @ lk @ advice_closing env ct st t h) \<and>
     ln \<in> {nitrogen_low, nitrogen_high, nitrogen_adequate} \<and>
     (flt_less n (Finite 20) \<longrightarrow> ln = nitrogen_low) \<and>
     (flt_greater n (Finite 50) \<longrightarrow> ln = nitrogen_high) \<and>
     (flt_le (Finite 20) n \<and> flt_le n (Finite 50) \<longrightarrow> ln = nitrogen_adequate) \<and>
     lp \<in> {phosphorus_low, phosphorus_good, phosphorus_moderate} \<and>
     (flt_less p (Finite 15) \<longrightarrow> lp = phosphorus_low) \<and>
     (flt_greater p (Finite 40) \<longrightarrow> lp = phosphorus_good) \<and>
     (flt_le (Finite 15) p \<and> flt_le p (Finite 40) \<longrightarrow> lp = phosphorus_moderate) \<and>
     lk \<in> {potassium_low, potassium_excellent, potassium_moderate} \<and>
     (flt_less k (Finite 20) \<longrightarrow> lk = potassium_low) \<and>
     (flt_greater k (Finite 50) \<longrightarrow> lk = potassium_excellent) \<and>
     (flt_le (Finite 20) k \<and> flt_le k (Finite 50) \<longrightarrow> lk = potassium_moderate) \<and>
     distinct [nitrogen_low, nitrogen_high, nitrogen_adequate] \<and>
     distinct [phosphorus_low, phosphorus_good, phosphorus_moderate] \<and>
     distinct [potassium_low, potassium_excellent, potassium_moderate]"
proof -
  define ln where "ln = (if flt_less n (Finite 20) then nitrogen_low
     else if flt_greater n (Finite 50) then nitrogen_high else nitrogen_adequate)"
  define lp where "lp = (if flt_less p (Finite 15) then phosphorus_low
     else if flt_greater p (Finite 40) then phosphorus_good else phosphorus_moderate)"
  define lk where "lk = (if flt_less k (Finite 20) then potassium_low
     else if flt_greater k (Finite 50) then potassium_excellent else potassium_moderate)"
  have eq: "get_fertilizer_advice env fert data =
       Inr (advice_opening fert @ soil_heading @ ln @ lp @ lk @ advice_closing env ct st t h)"
    unfolding get_fertilizer_advice_def ln_def lp_def lk_def
    by (simp add: n p k rest try_then_def data_item_def Let_def)
  have N: "ln \<in> {nitrogen_low, nitrogen_high, nitrogen_adequate}"
      "flt_less n (Finite 20) \<longrightarrow> ln = nitrogen_low"
      "flt_greater n (Finite 50) \<longrightarrow> ln = nitrogen_high"
      "flt_le (Finite 20) n \<and> flt_le n (Finite 50) \<longrightarrow> ln = nitrogen_adequate"
    using tier_exclusive [of 20 50 n] tier_not_low [of 20 n] tier_not_high [of n 50]
    by (simp_all add: ln_def)
  have P: "lp \<in> {phosphorus_low, phosphorus_good, phosphorus_moderate}"
      "flt_less p (Finite 15) \<longrightarrow> lp = phosphorus_low"
      "flt_greater p (Finite 40) \<longrightarrow> lp = phosphorus_good"
      "flt_le (Finite 15) p \<and> flt_le p (Finite 40) \<longrightarrow> lp = phosphorus_moderate"
    using tier_exclusive [of 15 40 p] tier_not_low [of 15 p] tier_not_high [of p 40]
    by (simp_all add: lp_def)
  have K: "lk \<in> {potassium_low, potassium_excellent, potassium_moderate}"
      "flt_less k (Finite 20) \<longrightarrow> lk = potassium_low"
      "flt_greater k (Finite 50) \<longrightarrow> lk = potassium_excellent"
      "flt_le (Finite 20) k \<and> flt_le k (Finite 50) \<longrightarrow> lk = potassium_moderate"
    using tier_exclusive [of 20 50 k] tier_not_low [of 20 k] tier_not_high [of k 50]
    by (simp_all add: lk_def)
  show ?thesis
    apply (rule exI [of _ ln], rule exI [of _ lp], rule exI [of _ lk])
    using eq N P K nitrogen_lines_distinct phosphorus_lines_distinct potassium_lines_distinct
    apply (intro conjI)
    apply assumption+
    done
qed

theorem fertilizer_advice_soil_lines_witness:
  "float_item example_fertilizer_body ''Nitrogen'' = Inr (Finite 10) \<and>
   float_item example_fertilizer_body ''Phosphorous'' = Inr (Finite 30) \<and>
   float_item example_fertilizer_body ''Potassium'' = Inr (Finite 60) \<and>
   example_fertilizer_body ''Crop Type'' = Some (JStr ''Maize'') \<and>
   example_fertilizer_body ''Soil Type'' = Some (JStr ''Sandy'') \<and>
   example_fertilizer_body ''Temparature'' = Some (JInt 26) \<and>
   example_fertilizer_body ''Humidity '' = Some (JInt 52) \<and>
   get_fertilizer_advice example_env ''Urea'' example_fertilizer_body =
     Inr (advice_opening ''Urea'' @ soil_heading @ nitrogen_low @ phosphorus_moderate
          @ potassium_excellent
          @ advice_closing example_env (JStr ''Maize'') (JStr ''Sandy'') (JInt 26) (JInt 52))"
proof -
  from fertilizer_advice_soil_lines [OF example_fertilizer_items, of example_env "''Urea''"]
  obtain ln lp lk where
    eq: "get_fertilizer_advice example_env ''Urea'' example_fertilizer_body =
       Inr (advice_opening ''Urea'' @ soil_heading @ ln @ lp @ lk
            @ advice_closing example_env (JStr ''Maize'') (JStr ''Sandy'') (JInt 26) (JInt 52))"
    and ln: "flt_less (Finite 10) (Finite 20) \<longrightarrow> ln = nitrogen_low"
    and lp: "flt_le (Finite 15) (Finite 30) \<and> flt_le (Finite 30) (Finite 40) \<longrightarrow> lp = phosphorus_moderate"
    and lk: "flt_greater (Finite 60) (Finite 50) \<longrightarrow> lk = potassium_excellent"
    by (elim exE conjE)
  from ln have "ln = nitrogen_low" by simp
  moreover from lp have "lp = phosphorus_moderate" by (simp add: flt_le_def)
  moreover from lk have "lk = potassium_excellent" by simp
  ultimately show ?thesis using eq example_fertilizer_items by (simp only: simp_thms)
qed

section \<open>Order of conversion and model check\<close>

lemma try_then_Inl [simp]: "try_then (Inl e) f = Inl e"
  by (simp add: try_then_def)

lemma try_then_Inr [simp]: "try_then (Inr x) f = f x"
  by (simp add: try_then_def)

lemma predict_crop_cast_error:
  assumes "first_missing crop_required_fields data = None"
    and "\<exists>g\<in>set crop_required_fields. \<exists>e. float_item data g = Inl e"
  shows "\<exists>g e. g \<in> set crop_required_fields \<and> float_item data g = Inl e \<and>
           predict_crop env data w = (uncaught env e, w)"
proof -
  have run: "predict_crop_try env data w =
      try_then (float_item data ''nitrogen'') (\<lambda>N.
      try_then (float_item data ''phosphorus'') (\<lambda>P.
      try_then (float_item data ''potassium'') (\<lambda>K.
      try_then (float_item data ''temperature'') (\<lambda>temp.
      try_then (float_item data ''humidity'') (\<lambda>humidity.
      try_then (float_item data ''ph'') (\<lambda>ph.
      try_then (float_item data ''rainfall'') (\<lambda>rainfall.
        predict_crop_try env data w)))))))"
    by (cases "float_item data ''nitrogen''"; cases "float_item data ''phosphorus''";
        cases "float_item data ''potassium''"; cases "float_item data ''temperature''";
        cases "float_item data ''humidity''"; cases "float_item data ''ph''";
        cases "float_item data ''rainfall''")
       (simp_all add: predict_crop_try_def assms(1))
  show ?thesis
  proof (cases "float_item data ''nitrogen''")
    case (Inl e)
    with run have "predict_crop env data w = (uncaught env e, w)" by (simp add: predict_crop_def)
    with Inl show ?thesis by (auto simp: crop_required_fields_def)
  next
    case n: (Inr N)
    show ?thesis
    proof (cases "float_item data ''phosphorus''")
      case (Inl e)
      with run n have "predict_crop env data w = (uncaught env e, w)" by (simp add: predict_crop_def)
      with Inl show ?thesis by (auto simp: crop_required_fields_def)
    next
      case p: (Inr P)
      show ?thesis
      proof (cases "float_item data ''potassium''")
        case (Inl e)
        with run n p have "predict_crop env data w = (uncaught env e, w)" by (simp add: predict_crop_def)
        with Inl show ?thesis by (auto simp: crop_required_fields_def)
      next
        case k: (Inr K)
        show ?thesis
        proof (cases "float_item data ''temperature''")
          case (Inl e)
          with run n p k have "predict_crop env data w = (uncaught env e, w)" by (simp add: predict_crop_def)
          with Inl show ?thesis by (auto simp: crop_required_fields_def)
        next
          case t: (Inr T)
          show ?thesis
          proof (cases "float_item data ''humidity''")
            case (Inl e)
            with run n p k t have "predict_crop env data w = (uncaught env e, w)" by (simp add: predict_crop_def)
            with Inl show ?thesis by (auto simp: crop_required_fields_def)
          next
            case h: (Inr H)
            show ?thesis
            proof (cases "float_item data ''ph''")
              case (Inl e)
              with run n p k t h have "predict_crop env data w = (uncaught env e, w)" by (simp add: predict_crop_def)
              with Inl show ?thesis by (auto simp: crop_required_fields_def)
            next
              case ph: (Inr PH)
              show ?thesis
              proof (cases "float_item data ''rainfall''")
                case (Inl e)
                with run n p k t h ph have "predict_crop env data w = (uncaught env e, w)" by (simp add: predict_crop_def)
                with Inl show ?thesis by (auto simp: crop_required_fields_def)
              next
                case (Inr R)
                with n p k t h ph assms(2) show ?thesis by (auto simp: crop_required_fields_def)
              qed
            qed
          qed
        qed
      qed
    qed
  qed
qed

lemma yield_model_absent:
  assumes "first_missing yield_required_fields data = None" and "''yield_model'' \<notin> models env"
  shows "predict_crop_yield env data w = (not_available ''Crop yield model not available'', w)"
    and "additional_predict_crop_yield env data w =
           (not_available ''Crop yield model not available'', w)"
  using assms
  by (simp_all add: predict_crop_yield_def predict_crop_yield_try_def
        additional_predict_crop_yield_def additional_predict_crop_yield_try_def)

lemma fertilizer_model_absent:
  assumes "first_missing fertilizer_required_fields data = None"
    and "''fertilizer_model'' \<notin> models env"
  shows "recommend_fertilizer env data w = (not_available ''Fertilizer model not available'', w)"
    and "additional_recommend_fertilizer env data w =
           (not_available ''Fertilizer model not available'', w)"
  using assms
  by (simp_all add: recommend_fertilizer_def additional_recommend_fertilizer_def
        fertilizer_predict_def)

lemma disease_model_absent:
  assumes "file_part req = Some f" and "filename f \<noteq> []"
    and "''disease_interpreter'' \<notin> models env"
  shows "detect_disease env req w = (not_available ''Disease detection model not available'', w)"
  using assms by (simp add: detect_disease_def detect_disease_try_def)

text \<open>
  Claim C3, as stated, fails for the yield handler: with every required field present,
  \<open>Year\<close> not convertible by \<open>int()\<close> and no yield model loaded, the answer is the 500
  "model not available" error, not the cast error.
\<close>

theorem yield_checks_model_before_cast:
  "first_missing yield_required_fields (example_yield_body(''Year'' \<mapsto> JStr ''next'')) = None \<and>
   int_item (example_yield_body(''Year'' \<mapsto> JStr ''next'')) ''Year'' = Inl ValueError \<and>
   ''yield_model'' \<notin> models (example_env\<lparr>models := {}\<rparr>) \<and>
   predict_crop_yield (example_env\<lparr>models := {}\<rparr>)
       (example_yield_body(''Year'' \<mapsto> JStr ''next'')) example_world =
     ((500, [(''success'', JBool False), (''error'', JStr ''Crop yield model not available'')]),
      example_world) \<and>
   predict_crop_yield (example_env\<lparr>models := {}\<rparr>)
       (example_yield_body(''Year'' \<mapsto> JStr ''next'')) example_world \<noteq>
     (uncaught (example_env\<lparr>models := {}\<rparr>) ValueError, example_world)"
proof -
  let ?d = "example_yield_body(''Year'' \<mapsto> JStr ''next'')"
  let ?e = "example_env\<lparr>models := {}\<rparr>"
  have present: "first_missing yield_required_fields ?d = None"
    by (simp add: yield_required_fields_def example_yield_body_def)
  have cast: "int_item ?d ''Year'' = Inl ValueError"
    by (simp add: int_item_def data_item_def str_to_int_def strip_def is_space_def is_digit_def)
  have absent: "''yield_model'' \<notin> models ?e" by simp
  have r: "predict_crop_yield ?e ?d example_world =
     ((500, [(''success'', JBool False), (''error'', JStr ''Crop yield model not available'')]),
      example_world)"
    using yield_model_absent(1) [OF present absent] by (simp add: not_available_def)
  have "predict_crop_yield ?e ?d example_world \<noteq> (uncaught ?e ValueError, example_world)"
    unfolding r by (simp add: uncaught_def example_env_def)
  with present cast absent r show ?thesis by (intro conjI)
qed

text \<open>
  Claim C3, amended. Only the crop-recommendation handler converts the fields before it
  looks for its model: there a request with every required field present and a field
  that \<open>float()\<close> rejects is answered with the 500 cast error, whether or not the model is
  loaded. The yield and fertilizer handlers, in both modules, look for the model first:
  with every required field present and the model absent they answer the 500 "model not
  available" error, whatever the fields hold. Disease detection converts no field, and
  answers "model not available" for a named upload when the interpreter is absent.
\<close>

theorem cast_before_model_check_only_for_crop:
  "(first_missing crop_required_fields data = None \<and>
    (\<exists>g\<in>set crop_required_fields. \<exists>e. float_item data g = Inl e) \<longrightarrow>
      (\<exists>g e. g \<in> set crop_required_fields \<and> float_item data g = Inl e \<and>
         predict_crop env data w = (uncaught env e, w))) \<and>
   (first_missing yield_required_fields data = None \<and> ''yield_model'' \<notin> models env \<longrightarrow>
      predict_crop_yield env data w =
        ((500, [(''success'', JBool False), (''error'', JStr ''Crop yield model not available'')]), w) \<and>
      additional_predict_crop_yield env data w =
        ((500, [(''success'', JBool False), (''error'', JStr ''Crop yield model not available'')]), w)) \<and>
   (first_missing fertilizer_required_fields data = None \<and> ''fertilizer_model'' \<notin> models env \<longrightarrow>
      recommend_fertilizer env data w =
        ((500, [(''success'', JBool False), (''error'', JStr ''Fertilizer model not available'')]), w) \<and>
      additional_recommend_fertilizer env data w =
        ((500, [(''success'', JBool False), (''error'', JStr ''Fertilizer model not available'')]), w)) \<and>
   (file_part req = Some f \<and> filename f \<noteq> [] \<and> ''disease_interpreter'' \<notin> models env \<longrightarrow>
      detect_disease env req w =
        ((500, [(''success'', JBool False), (''error'', JStr ''Disease detection model not available'')]), w))"
proof (intro conjI impI)
  assume "first_missing crop_required_fields data = None \<and>
    (\<exists>g\<in>set crop_required_fields. \<exists>e. float_item data g = Inl e)"
  then show "\<exists>g e. g \<in> set crop_required_fields \<and> float_item data g = Inl e \<and>
         predict_crop env data w = (uncaught env e, w)"
    using predict_crop_cast_error [of data env w] by blast
next
  assume a: "first_missing yield_required_fields data = None \<and> ''yield_model'' \<notin> models env"
  then show "predict_crop_yield env data w =
        ((500, [(''success'', JBool False), (''error'', JStr ''Crop yield model not available'')]), w)"
    using yield_model_absent(1) [of data env w] by (simp add: not_available_def)
  from a show "additional_predict_crop_yield env data w =
        ((500, [(''success'', JBool False), (''error'', JStr ''Crop yield model not available'')]), w)"
    using yield_model_absent(2) [of data env w] by (simp add: not_available_def)
next
  assume a: "first_missing fertilizer_required_fields data = None \<and> ''fertilizer_model'' \<notin> models env"
  then show "recommend_fertilizer env data w =
        ((500, [(''success'', JBool False), (''error'', JStr ''Fertilizer model not available'')]), w)"
    using fertilizer_model_absent(1) [of data env w] by (simp add: not_available_def)
  from a show "additional_recommend_fertilizer env data w =
        ((500, [(''success'', JBool False), (''error'', JStr ''Fertilizer model not available'')]), w)"
    using fertilizer_model_absent(2) [of data env w] by (simp add: not_available_def)
next
  assume "file_part req = Some f \<and> filename f \<noteq> [] \<and> ''disease_interpreter'' \<notin> models env"
  then show "detect_disease env req w =
        ((500, [(''success'', JBool False), (''error'', JStr ''Disease detection model not available'')]), w)"
    using disease_model_absent [of req f env w] by (simp add: not_available_def)
qed

theorem cast_before_model_check_only_for_crop_witness:
  "first_missing crop_required_fields (example_crop_body(''ph'' \<mapsto> JStr ''acid'')) = None \<and>
   float_item (example_crop_body(''ph'' \<mapsto> JStr ''acid'')) ''ph'' = Inl ValueError \<and>
   predict_crop (example_env\<lparr>models := {}\<rparr>) (example_crop_body(''ph'' \<mapsto> JStr ''acid''))
       example_world =
     (uncaught (example_env\<lparr>models := {}\<rparr>) ValueError, example_world) \<and>
   first_missing yield_required_fields (example_yield_body(''Year'' \<mapsto> JNull)) = None \<and>
   predict_crop_yield (example_env\<lparr>models := {}\<rparr>) (example_yield_body(''Year'' \<mapsto> JNull))
       example_world =
     ((500, [(''success'', JBool False), (''error'', JStr ''Crop yield model not available'')]),
      example_world) \<and>
   first_missing fertilizer_required_fields (example_fertilizer_body(''Moisture'' \<mapsto> JNull)) = None \<and>
   recommend_fertilizer (example_env\<lparr>models := {}\<rparr>)
       (example_fertilizer_body(''Moisture'' \<mapsto> JNull)) example_world =
     ((500, [(''success'', JBool False), (''error'', JStr ''Fertilizer model not available'')]),
      example_world) \<and>
   detect_disease (example_env\<lparr>models := {}\<rparr>) example_disease_request example_world =
     ((500, [(''success'', JBool False), (''error'', JStr ''Disease detection model not available'')]),
      example_world)"
proof -
  let ?e = "example_env\<lparr>models := {}\<rparr>"
  let ?c = "example_crop_body(''ph'' \<mapsto> JStr ''acid'')"
  let ?y = "example_yield_body(''Year'' \<mapsto> JNull)"
  let ?f = "example_fertilizer_body(''Moisture'' \<mapsto> JNull)"
  note main = cast_before_model_check_only_for_crop
  have pc: "first_missing crop_required_fields ?c = None"
    by (simp add: crop_required_fields_def example_crop_body_def)
  have items: "float_item ?c ''nitrogen'' = Inr (Finite 90)"
      "float_item ?c ''phosphorus'' = Inr (Finite 42)"
      "float_item ?c ''potassium'' = Inr (Finite 43)"
      "float_item ?c ''temperature'' = Inr (Finite 20.8)"
      "float_item ?c ''humidity'' = Inr (Finite 82)"
      "float_item ?c ''rainfall'' = Inr (Finite 202.9)"
    by (simp_all add: float_item_def data_item_def example_crop_body_def)
  have bad: "float_item ?c ''ph'' = Inl ValueError"
    by (simp add: float_item_def data_item_def str_to_float_def strip_def is_space_def
          parse_floatnumber_def parse_mantissa_def is_exp_mark_def is_digit_def)
  then have ex: "\<exists>g\<in>set crop_required_fields. \<exists>e. float_item ?c g = Inl e"
    by (auto simp: crop_required_fields_def)
  from main [where data = ?c and env = ?e and w = example_world] pc ex
  obtain g e where g: "g \<in> set crop_required_fields" "float_item ?c g = Inl e"
      and r: "predict_crop ?e ?c example_world = (uncaught ?e e, example_world)"
    by blast
  from g items bad have "e = ValueError"
    by (auto simp: crop_required_fields_def)
  with r have c: "predict_crop ?e ?c example_world = (uncaught ?e ValueError, example_world)"
    by simp
  have py: "first_missing yield_required_fields ?y = None"
    by (simp add: yield_required_fields_def example_yield_body_def)
  have pf: "first_missing fertilizer_required_fields ?f = None"
    by (simp add: fertilizer_required_fields_def example_fertilizer_body_def)
  have m: "''yield_model'' \<notin> models ?e" "''fertilizer_model'' \<notin> models ?e"
      "''disease_interpreter'' \<notin> models ?e"
    by simp_all
  have y: "predict_crop_yield ?e ?y example_world =
     ((500, [(''success'', JBool False), (''error'', JStr ''Crop yield model not available'')]),
      example_world)"
    using main [where data = ?y and env = ?e and w = example_world] py m by blast
  have f: "recommend_fertilizer ?e ?f example_world =
     ((500, [(''success'', JBool False), (''error'', JStr ''Fertilizer model not available'')]),
      example_world)"
    using main [where data = ?f and env = ?e and w = example_world] pf m by blast
  have d: "detect_disease ?e example_disease_request example_world =
     ((500, [(''success'', JBool False), (''error'', JStr ''Disease detection model not available'')]),
      example_world)"
    using main [where env = ?e and w = example_world and req = example_disease_request
                  and f = "\<lparr>filename = ''leaf.jpg'', content = []\<rparr>"] m
    by (simp add: example_disease_request_def)
  from pc bad c py y pf f d show ?thesis by (intro conjI)
qed

section \<open>The two yield handlers\<close>

lemma area_text_rejected:
  assumes "data ''Area'' = Some (JStr a)" and "str_to_float a = None"
  shows "float_item data ''Area'' = Inl ValueError"
  using assms by (simp add: float_item_def data_item_def)

lemma Albania_is_no_number: "str_to_float ''Albania'' = None"
  by (simp add: str_to_float_def strip_def is_space_def parse_floatnumber_def
        parse_mantissa_def is_exp_mark_def is_digit_def)

lemma example_yield_items:
  "first_missing yield_required_fields example_yield_body = None"
  "''yield_model'' \<in> models example_env"
  "int_item example_yield_body ''Year'' = Inr 2013"
  "float_item example_yield_body ''average_rain_fall_mm_per_year'' = Inr (Finite 1485)"
  "float_item example_yield_body ''pesticides_tonnes'' = Inr (Finite 121)"
  "float_item example_yield_body ''avg_temp'' = Inr (Finite 16.37)"
  "example_yield_body ''Area'' = Some (JStr ''Albania'')"
  "str_to_float ''Albania'' = None"
  "example_yield_body ''Item'' = Some (JStr ''Maize'')"
  "yield_inference example_env
     [JInt 2013, JFloat (Finite 1485), JFloat (Finite 121), JFloat (Finite 16.37),
      JStr ''Albania'', JStr ''Maize''] = Inr (Finite 36613)"
  by (simp_all add: yield_required_fields_def example_yield_body_def example_env_def
        int_item_def float_item_def data_item_def Albania_is_no_number)

text \<open>
  Claim C9. The yield handler of \<open>app.py\<close> and the one of \<open>additional_routes.py\<close> differ
  on \<open>Area\<close>: the first hands the value to the model as it is, the second converts it with
  \<open>float()\<close>. For a request whose other fields convert, whose \<open>Area\<close> is a text that
  \<open>float()\<close> rejects, and with the model loaded, the second answers the 500 cast error
  and writes nothing, while the first calls the model with \<open>Area\<close> unchanged and, when the
  model returns, answers 200 with that \<open>Area\<close>.
\<close>

theorem yield_handlers_differ_on_area:
  assumes present: "first_missing yield_required_fields data = None"
    and model: "''yield_model'' \<in> models env"
    and year: "int_item data ''Year'' = Inr year"
    and rainfall: "float_item data ''average_rain_fall_mm_per_year'' = Inr rainfall"
    and pesticides: "float_item data ''pesticides_tonnes'' = Inr pesticides"
    and temp: "float_item data ''avg_temp'' = Inr temp"
    and area: "data ''Area'' = Some (JStr a)" "str_to_float a = None"
    and crop_item: "data ''Item'' = Some crop_item"
    and infer: "yield_inference env
        [JInt year, JFloat rainfall, JFloat pesticides, JFloat temp, JStr a, crop_item] = Inr y"
  shows "additional_predict_crop_yield env data w =
           ((500, [(''success'', JBool False), (''error'', JStr (str_exc env ValueError))]), w) \<and>
         status (fst (predict_crop_yield env data w)) = 200 \<and>
         payload (fst (predict_crop_yield env data w)) ''success'' = Some (JBool True) \<and>
         payload (fst (predict_crop_yield env data w)) ''area'' = Some (JStr a) \<and>
         payload (fst (predict_crop_yield env data w)) ''predicted_yield'' = Some (JFloat y) \<and>
         fst (predict_crop_yield env data w) \<noteq> fst (additional_predict_crop_yield env data w)"
proof -
  have dup: "additional_predict_crop_yield env data w =
           ((500, [(''success'', JBool False), (''error'', JStr (str_exc env ValueError))]), w)"
    using present model year rainfall pesticides temp area_text_rejected [of data a] area
    by (simp add: additional_predict_crop_yield_def additional_predict_crop_yield_try_def
          try_then_def uncaught_def)
  have run: "\<exists>resp w'. predict_crop_yield_try env data w = Inr (resp, w') \<and> fst resp = 200 \<and>
        map_of (snd resp) ''success'' = Some (JBool True) \<and>
        map_of (snd resp) ''area'' = Some (JStr a) \<and>
        map_of (snd resp) ''predicted_yield'' = Some (JFloat y)"
    using present model year rainfall pesticides temp area(1) crop_item infer
    by (simp add: predict_crop_yield_try_def try_then_def data_item_def Let_def)
  then obtain resp w' where r: "predict_crop_yield env data w = (resp, w')"
      and p: "fst resp = 200" "map_of (snd resp) ''success'' = Some (JBool True)"
        "map_of (snd resp) ''area'' = Some (JStr a)"
        "map_of (snd resp) ''predicted_yield'' = Some (JFloat y)"
    by (auto simp: predict_crop_yield_def)
  from r p dup show ?thesis
    by (auto simp: status_def payload_def)
qed

theorem yield_handlers_differ_on_area_witness:
  "first_missing yield_required_fields example_yield_body = None \<and>
   ''yield_model'' \<in> models example_env \<and>
   example_yield_body ''Area'' = Some (JStr ''Albania'') \<and>
   str_to_float ''Albania'' = None \<and>
   additional_predict_crop_yield example_env example_yield_body example_world =
     ((500, [(''success'', JBool False), (''error'', JStr (str_exc example_env ValueError))]),
      example_world) \<and>
   status (fst (predict_crop_yield example_env example_yield_body example_world)) = 200 \<and>
   payload (fst (predict_crop_yield example_env example_yield_body example_world)) ''success'' =
     Some (JBool True) \<and>
   payload (fst (predict_crop_yield example_env example_yield_body example_world)) ''area'' =
     Some (JStr ''Albania'') \<and>
   payload (fst (predict_crop_yield example_env example_yield_body example_world))
     ''predicted_yield'' = Some (JFloat (Finite 36613))"
  using yield_handlers_differ_on_area [OF example_yield_items, of example_world]
    example_yield_items(1,2,7,8)
  by (simp only: simp_thms)

section \<open>A class index outside the table\<close>

lemma crop_index_outside_table:
  assumes "first_missing crop_required_fields data = None"
    and "float_item data ''nitrogen'' = Inr N" "float_item data ''phosphorus'' = Inr P"
      "float_item data ''potassium'' = Inr K" "float_item data ''temperature'' = Inr temp"
      "float_item data ''humidity'' = Inr humidity" "float_item data ''ph'' = Inr ph"
      "float_item data ''rainfall'' = Inr rainfall"
    and "''crop_model'' \<in> models env"
    and "crop_inference env [N, P, K, temp, humidity, ph, rainfall] = Inr (prediction, confidence)"
    and "prediction < 1 \<or> 22 < prediction"
  shows "predict_crop env data w =
     ((200, [(''success'', JBool False),
             (''message'', JStr ''Could not determine the best crop with the provided data.'')]),
      w)"
proof -
  have "map_of CROP_DICT prediction = None"
    using assms(11) by (auto simp: CROP_DICT_def)
  with assms show ?thesis
    by (simp add: predict_crop_def predict_crop_try_def try_then_def)
qed

lemma disease_label_outside_table: "3 \<le> i \<Longrightarrow> disease_label i = Inl (KeyError (JInt (int i)))"
  by (auto simp: disease_label_def DISEASE_LABELS_def)

lemma disease_index_outside_table:
  assumes "file_part req = Some f" and "filename f \<noteq> []"
    and "''disease_interpreter'' \<in> models env"
    and "disease_inference env f = Inr predictions"
    and "argmax predictions = Inr i" and "i < length predictions" and "3 \<le> i"
  shows "detect_disease env req w = (uncaught env (KeyError (JInt (int i))), w)"
  using assms disease_label_outside_table [of i]
  by (simp add: detect_disease_def detect_disease_try_def try_then_def nth_item_def)

text \<open>
  Claim C1. For crop recommendation a class index outside the table is answered with 200
  and \<open>success: false\<close>. For disease detection it is not: with a four-entry prediction
  vector whose largest entry is the last, \<open>DISEASE_LABELS[3]\<close> raises \<open>KeyError\<close>, and the
  handler answers 500 with the text of that exception.
\<close>

theorem disease_index_outside_table_is_500:
  "argmax [Finite 0.1, Finite 0.2, Finite 0.1, Finite 0.6] = Inr 3 \<and>
   map_of DISEASE_LABELS 3 = None \<and>
   detect_disease
     (example_env\<lparr>disease_inference := (\<lambda>f. Inr [Finite 0.1, Finite 0.2, Finite 0.1, Finite 0.6])\<rparr>)
     example_disease_request example_world =
     ((500, [(''success'', JBool False),
             (''error'', JStr (str_exc example_env (KeyError (JInt 3))))]),
      example_world)"
proof -
  let ?p = "[Finite 0.1, Finite 0.2, Finite 0.1, Finite 0.6]"
  let ?e = "example_env\<lparr>disease_inference := (\<lambda>f. Inr ?p)\<rparr>"
  have a: "argmax ?p = Inr 3"
    by (simp add: argmax_def flt_le_def)
  have l: "map_of DISEASE_LABELS 3 = None"
    by (simp add: DISEASE_LABELS_def)
  have f: "file_part example_disease_request = Some \<lparr>filename = ''leaf.jpg'', content = []\<rparr>"
    by (simp add: example_disease_request_def)
  have n: "filename \<lparr>filename = ''leaf.jpg'', content = []\<rparr> \<noteq> []"
    by simp
  have m: "''disease_interpreter'' \<in> models ?e"
    by (simp add: example_env_def)
  have i: "disease_inference ?e \<lparr>filename = ''leaf.jpg'', content = []\<rparr> = Inr ?p"
    by simp
  have "detect_disease ?e example_disease_request example_world =
      (uncaught ?e (KeyError (JInt (int 3))), example_world)"
    by (rule disease_index_outside_table [OF f n m i a]) simp_all
  then have "detect_disease ?e example_disease_request example_world =
     ((500, [(''success'', JBool False),
             (''error'', JStr (str_exc example_env (KeyError (JInt 3))))]),
      example_world)"
    by (simp add: uncaught_def)
  with a l show ?thesis by (intro conjI)
qed

section \<open>The best-effort write\<close>

lemma range_3: "[0..<3] = [0, 1, 2]"
  by (simp add: upt_rec)

lemma save_with_retry_skipped:
  "\<not> (supabase env \<and> truthy_opt u) \<Longrightarrow> save_with_retry env u t mk w = w"
  by (auto simp: save_with_retry_def)

lemma save_once_skipped:
  "\<not> (supabase env \<and> truthy_opt u) \<Longrightarrow> save_once env u t mk w = w"
  by (auto simp: save_once_def)

lemma save_with_retry_all_raise:
  assumes "\<forall>n. store_raises w n" and "supabase env" and "truthy_opt u"
  shows "save_with_retry env u t mk w =
           w\<lparr>calls := calls w + 3, clock := clock w + 2,
             trace := trace w @ [InsertFailed t, Slept 1, InsertFailed t, Slept 1, InsertFailed t]\<rparr>"
  using assms by (simp add: save_with_retry_def range_3 store_insert_def sleep_def)

lemma save_with_retry_tables:
  "tables (save_with_retry env u t mk w) = tables w \<or>
   (\<exists>r. tables (save_with_retry env u t mk w) = (tables w)(t := tables w t @ [r]))"
  by (auto simp: save_with_retry_def range_3 store_insert_def sleep_def)

lemma save_once_tables:
  "tables (save_once env u t mk w) = tables w \<or>
   (\<exists>r. tables (save_once env u t mk w) = (tables w)(t := tables w t @ [r]))"
  by (auto simp: save_once_def store_insert_def)

lemma save_with_retry_calls: "calls (save_with_retry env u t mk w) \<le> calls w + 3"
  by (auto simp: save_with_retry_def range_3 store_insert_def sleep_def)

lemma save_with_retry_trace:
  "\<exists>evs. trace (save_with_retry env u t mk w) = trace w @ evs \<and>
     (evs = [] \<or> (\<exists>r. evs = [Inserted t r]) \<or>
      (\<exists>r. evs = [InsertFailed t, Slept 1, Inserted t r]) \<or>
      (\<exists>r. evs = [InsertFailed t, Slept 1, InsertFailed t, Slept 1, Inserted t r]) \<or>
      evs = [InsertFailed t, Slept 1, InsertFailed t, Slept 1, InsertFailed t])"
  by (auto simp: save_with_retry_def range_3 store_insert_def sleep_def)

section \<open>Shape of a handler's result\<close>

lemma first_missing_update:
  "k \<notin> set fs \<Longrightarrow> first_missing fs (data(k := v)) = first_missing fs data"
  by (induction fs) auto

lemma item_update:
  "k \<noteq> g \<Longrightarrow> data_item (data(k := v)) g = data_item data g"
  "k \<noteq> g \<Longrightarrow> float_item (data(k := v)) g = float_item data g"
  "k \<noteq> g \<Longrightarrow> int_item (data(k := v)) g = int_item data g"
  by (simp_all add: data_item_def float_item_def int_item_def)

lemma user_id_not_required:
  "''user_id'' \<notin> set crop_required_fields"
  "''user_id'' \<notin> set yield_required_fields"
  "''user_id'' \<notin> set fertilizer_required_fields"
  by (simp_all add: crop_required_fields_def yield_required_fields_def
        fertilizer_required_fields_def)

lemma predict_crop_shape:
  "\<exists>resp. (predict_crop env data w = (resp, w) \<and> payload resp ''success'' \<noteq> Some (JBool True)) \<or>
     (\<exists>mk. predict_crop env data w =
              (resp, save_with_retry env (data ''user_id'') ''crop_recommendations'' mk w) \<and>
           payload resp ''success'' = Some (JBool True))"
  unfolding predict_crop_def predict_crop_try_def
  by (fastforce simp: try_then_def Let_def payload_def missing_field_def not_available_def
        uncaught_def split: option.splits sum.splits)

lemma predict_crop_response:
  "fst (predict_crop env data w) =
   fst (predict_crop (env\<lparr>supabase := s\<rparr>) (data(''user_id'' := v)) w')"
  unfolding predict_crop_def predict_crop_try_def
  by (simp add: first_missing_update user_id_not_required item_update try_then_def Let_def
        uncaught_def split: option.splits sum.splits)

lemma format_value_update [simp]:
  "format_value (env\<lparr>supabase := s\<rparr>) v = format_value env v"
  by (cases v) (simp_all add: format_value_def)

lemma advice_closing_update [simp]:
  "advice_closing (env\<lparr>supabase := s\<rparr>) c so t h = advice_closing env c so t h"
  by (simp add: advice_closing_def)

lemma predict_crop_yield_shape:
  "\<exists>resp. (predict_crop_yield env data w = (resp, w) \<and>
            payload resp ''success'' \<noteq> Some (JBool True)) \<or>
     (\<exists>mk. predict_crop_yield env data w =
              (resp, save_with_retry env (data ''user_id'') ''yield_predictions'' mk w) \<and>
           payload resp ''success'' = Some (JBool True))"
  unfolding predict_crop_yield_def predict_crop_yield_try_def
  by (fastforce simp: try_then_def Let_def payload_def missing_field_def not_available_def
        uncaught_def split: option.splits sum.splits)

lemma predict_crop_yield_response:
  "fst (predict_crop_yield env data w) =
   fst (predict_crop_yield (env\<lparr>supabase := s\<rparr>) (data(''user_id'' := v)) w')"
  unfolding predict_crop_yield_def predict_crop_yield_try_def
  by (simp add: first_missing_update user_id_not_required item_update try_then_def Let_def
        uncaught_def split: option.splits sum.splits)

lemma additional_predict_crop_yield_shape:
  "\<exists>resp. (additional_predict_crop_yield env data w = (resp, w) \<and>
            payload resp ''success'' \<noteq> Some (JBool True)) \<or>
     (\<exists>mk. additional_predict_crop_yield env data w =
              (resp, save_once env (data ''user_id'') ''crop_yield_predictions'' mk w) \<and>
           payload resp ''success'' = Some (JBool True))"
  unfolding additional_predict_crop_yield_def additional_predict_crop_yield_try_def
  by (fastforce simp: try_then_def Let_def payload_def missing_field_def not_available_def
        uncaught_def split: option.splits sum.splits)

lemma additional_predict_crop_yield_response:
  "fst (additional_predict_crop_yield env data w) =
   fst (additional_predict_crop_yield (env\<lparr>supabase := s\<rparr>) (data(''user_id'' := v)) w')"
  unfolding additional_predict_crop_yield_def additional_predict_crop_yield_try_def
  by (simp add: first_missing_update user_id_not_required item_update try_then_def Let_def
        uncaught_def split: option.splits sum.splits)

lemma get_fertilizer_advice_update:
  "get_fertilizer_advice (env\<lparr>supabase := s\<rparr>) fertilizer (data(''user_id'' := v)) =
   get_fertilizer_advice env fertilizer data"
  by (simp add: get_fertilizer_advice_def item_update)

lemma fertilizer_predict_update:
  "fertilizer_predict (env\<lparr>supabase := s\<rparr>) (data(''user_id'' := v)) =
   fertilizer_predict env data"
  by (simp add: fertilizer_predict_def first_missing_update user_id_not_required item_update
        get_fertilizer_advice_update split: option.splits)

lemma fertilizer_response_success:
  "payload (fertilizer_response r) ''success'' = Some (JBool True)"
  by (simp add: payload_def fertilizer_response_def)

lemma fertilizer_predict_early:
  "fertilizer_predict env data = Inr (Inl early) \<Longrightarrow>
     payload early ''success'' \<noteq> Some (JBool True)"
  by (auto simp: fertilizer_predict_def try_then_def payload_def missing_field_def
        not_available_def split: option.splits sum.splits if_splits prod.splits)

lemma recommend_fertilizer_shape:
  "\<exists>resp. (recommend_fertilizer env data w = (resp, w) \<and>
            payload resp ''success'' \<noteq> Some (JBool True)) \<or>
     (\<exists>mk. recommend_fertilizer env data w =
              (resp, save_with_retry env (data ''user_id'') ''fertilizer_recommendations'' mk w) \<and>
           payload resp ''success'' = Some (JBool True))"
proof (cases "fertilizer_predict env data")
  case (Inl e)
  then have "recommend_fertilizer env data w = (uncaught env e, w)"
    by (simp add: recommend_fertilizer_def)
  moreover have "payload (uncaught env e) ''success'' \<noteq> Some (JBool True)"
    by (simp add: uncaught_def payload_def)
  ultimately show ?thesis by blast
next
  case (Inr x)
  show ?thesis
  proof (cases x)
    case (Inl early)
    with Inr have "recommend_fertilizer env data w = (early, w)"
      by (simp add: recommend_fertilizer_def)
    moreover from Inl Inr have "payload early ''success'' \<noteq> Some (JBool True)"
      using fertilizer_predict_early [of env data early] by simp
    ultimately show ?thesis by blast
  next
    case r: (Inr r)
    with Inr have "\<exists>mk. recommend_fertilizer env data w =
        (fertilizer_response r, save_with_retry env (data ''user_id'') ''fertilizer_recommendations'' mk w)"
      by (simp add: recommend_fertilizer_def) (rule exI, rule refl)
    with fertilizer_response_success [of r] show ?thesis by blast
  qed
qed

lemma additional_recommend_fertilizer_shape:
  "\<exists>resp. (additional_recommend_fertilizer env data w = (resp, w) \<and>
            payload resp ''success'' \<noteq> Some (JBool True)) \<or>
     (\<exists>mk. additional_recommend_fertilizer env data w =
              (resp, save_once env (data ''user_id'') ''fertilizer_recommendations'' mk w) \<and>
           payload resp ''success'' = Some (JBool True))"
proof (cases "fertilizer_predict env data")
  case (Inl e)
  then have "additional_recommend_fertilizer env data w = (uncaught env e, w)"
    by (simp add: additional_recommend_fertilizer_def)
  moreover have "payload (uncaught env e) ''success'' \<noteq> Some (JBool True)"
    by (simp add: uncaught_def payload_def)
  ultimately show ?thesis by blast
next
  case (Inr x)
  show ?thesis
  proof (cases x)
    case (Inl early)
    with Inr have "additional_recommend_fertilizer env data w = (early, w)"
      by (simp add: additional_recommend_fertilizer_def)
    moreover from Inl Inr have "payload early ''success'' \<noteq> Some (JBool True)"
      using fertilizer_predict_early [of env data early] by simp
    ultimately show ?thesis by blast
  next
    case r: (Inr r)
    with Inr have "\<exists>mk. additional_recommend_fertilizer env data w =
        (fertilizer_response r, save_once env (data ''user_id'') ''fertilizer_recommendations'' mk w)"
      by (simp add: additional_recommend_fertilizer_def) (rule exI, rule refl)
    with fertilizer_response_success [of r] show ?thesis by blast
  qed
qed

lemma recommend_fertilizer_response:
  "fst (recommend_fertilizer env data w) =
   fst (recommend_fertilizer (env\<lparr>supabase := s\<rparr>) (data(''user_id'' := v)) w')"
  by (simp add: recommend_fertilizer_def fertilizer_predict_update uncaught_def
        split: sum.splits)

lemma additional_recommend_fertilizer_response:
  "fst (additional_recommend_fertilizer env data w) =
   fst (additional_recommend_fertilizer (env\<lparr>supabase := s\<rparr>) (data(''user_id'' := v)) w')"
  by (simp add: additional_recommend_fertilizer_def fertilizer_predict_update uncaught_def
        split: sum.splits)

lemma detect_disease_shape:
  "\<exists>resp. (detect_disease env req w = (resp, w) \<and>
            payload resp ''success'' \<noteq> Some (JBool True)) \<or>
     (\<exists>mk. detect_disease env req w =
              (resp, save_with_retry env (map_option JStr (form_user_id req))
                       ''disease_detections'' mk w) \<and>
           payload resp ''success'' = Some (JBool True))"
  unfolding detect_disease_def detect_disease_try_def
  by (fastforce simp: try_then_def Let_def payload_def not_available_def
        uncaught_def split: option.splits sum.splits)

lemma detect_disease_response:
  "fst (detect_disease env req w) =
   fst (detect_disease (env\<lparr>supabase := s\<rparr>) (req\<lparr>form_user_id := v\<rparr>) w')"
  unfolding detect_disease_def detect_disease_try_def
  by (simp add: try_then_def Let_def uncaught_def split: option.splits sum.splits)

section \<open>Persistence is best effort\<close>

lemma save_with_retry_first_returns:
  assumes "\<not> store_raises w (calls w)" and "supabase env" and "truthy_opt u"
  shows "save_with_retry env u t mk w =
           w\<lparr>tables := (tables w)(t := tables w t @ [mk (isoformat env (clock w))]),
             calls := Suc (calls w),
             trace := trace w @ [Inserted t (mk (isoformat env (clock w)))]\<rparr>"
  using assms by (simp add: save_with_retry_def range_3 store_insert_def)

lemma primary_response_fixed:
  "fst (predict_crop env data w) = fst (predict_crop env data w')"
  "fst (detect_disease env req w) = fst (detect_disease env req w')"
  "fst (predict_crop_yield env data w) = fst (predict_crop_yield env data w')"
  "fst (recommend_fertilizer env data w) = fst (recommend_fertilizer env data w')"
  using predict_crop_response [of env data w "supabase env" "data ''user_id''" w']
    detect_disease_response [of env req w "supabase env" "form_user_id req" w']
    predict_crop_yield_response [of env data w "supabase env" "data ''user_id''" w']
    recommend_fertilizer_response [of env data w "supabase env" "data ''user_id''" w']
  by simp_all

text \<open>
  What the proof of the next theorem needs from a primary handler run in two worlds: the
  same response, and in each world either no write or one call of the retry loop.
\<close>

lemma primary_runs:
  assumes "(r, r', u, t) \<in>
     {(predict_crop env data w, predict_crop env data w',
         data ''user_id'', ''crop_recommendations''),
      (detect_disease env req w, detect_disease env req w',
         map_option JStr (form_user_id req), ''disease_detections''),
      (predict_crop_yield env data w, predict_crop_yield env data w',
         data ''user_id'', ''yield_predictions''),
      (recommend_fertilizer env data w, recommend_fertilizer env data w',
         data ''user_id'', ''fertilizer_recommendations'')}"
  shows "fst r = fst r' \<and>
     (\<exists>resp. (r = (resp, w) \<and> payload resp ''success'' \<noteq> Some (JBool True)) \<or>
        (\<exists>mk. r = (resp, save_with_retry env u t mk w) \<and>
           payload resp ''success'' = Some (JBool True))) \<and>
     (\<exists>resp. (r' = (resp, w') \<and> payload resp ''success'' \<noteq> Some (JBool True)) \<or>
        (\<exists>mk. r' = (resp, save_with_retry env u t mk w') \<and>
           payload resp ''success'' = Some (JBool True)))"
  using assms
proof (elim insertE emptyE)
  assume "(r, r', u, t) = (predict_crop env data w, predict_crop env data w',
         data ''user_id'', ''crop_recommendations'')"
  then have "r = predict_crop env data w" "r' = predict_crop env data w'"
      "u = data ''user_id''" "t = ''crop_recommendations''"
    by (simp_all only: prod.inject)
  with primary_response_fixed(1) [of env data w w'] predict_crop_shape [of env data w]
    predict_crop_shape [of env data w']
  show ?thesis by (simp only:)
next
  assume "(r, r', u, t) = (detect_disease env req w, detect_disease env req w',
         map_option JStr (form_user_id req), ''disease_detections'')"
  then have "r = detect_disease env req w" "r' = detect_disease env req w'"
      "u = map_option JStr (form_user_id req)" "t = ''disease_detections''"
    by (simp_all only: prod.inject)
  with primary_response_fixed(2) [of env req w w'] detect_disease_shape [of env req w]
    detect_disease_shape [of env req w']
  show ?thesis by (simp only:)
next
  assume "(r, r', u, t) = (predict_crop_yield env data w, predict_crop_yield env data w',
         data ''user_id'', ''yield_predictions'')"
  then have "r = predict_crop_yield env data w" "r' = predict_crop_yield env data w'"
      "u = data ''user_id''" "t = ''yield_predictions''"
    by (simp_all only: prod.inject)
  with primary_response_fixed(3) [of env data w w'] predict_crop_yield_shape [of env data w]
    predict_crop_yield_shape [of env data w']
  show ?thesis by (simp only:)
next
  assume "(r, r', u, t) = (recommend_fertilizer env data w, recommend_fertilizer env data w',
         data ''user_id'', ''fertilizer_recommendations'')"
  then have "r = recommend_fertilizer env data w" "r' = recommend_fertilizer env data w'"
      "u = data ''user_id''" "t = ''fertilizer_recommendations''"
    by (simp_all only: prod.inject)
  with primary_response_fixed(4) [of env data w w'] recommend_fertilizer_shape [of env data w]
    recommend_fertilizer_shape [of env data w']
  show ?thesis by (simp only:)
qed

lemma example_crop_run:
  "predict_crop_try example_env example_crop_body w =
     Inr ((200,
           [(''success'', JBool True),
            (''recommended_crop'', JStr ''Rice''),
            (''confidence'', JFloat (Finite 0.9)),
            (''message'', JStr ''Rice is the best crop for these conditions''),
            (''advice'', JStr
               (''Based on your soil conditions (N:<value>, P:<value>, K:<value>) and climate (temp:<value>''
                @ [CHR 0xC2, CHR 0xB0]
                @ ''C, humidity:<value>%, pH:<value>, rainfall:<value>mm), Rice is recommended with <x.x%> confidence.''))]),
          save_with_retry example_env (Some (JStr ''u1'')) ''crop_recommendations''
            (\<lambda>created_at.
               [(''user_id'', JStr ''u1''),
                (''nitrogen'', JFloat (Finite 90)),
                (''phosphorus'', JFloat (Finite 42)),
                (''potassium'', JFloat (Finite 43)),
                (''temperature'', JFloat (Finite 20.8)),
                (''humidity'', JFloat (Finite 82)),
                (''ph_level'', JFloat (Finite 6.5)),
                (''rainfall'', JFloat (Finite 202.9)),
                (''recommended_crop'', JStr ''Rice''),
                (''confidence_score'', JFloat (Finite 0.9)),
                (''created_at'', JStr created_at)]) w)"
  by (simp add: predict_crop_try_def crop_required_fields_def example_crop_body_def
        float_item_def data_item_def example_env_def CROP_DICT_def user_id_value_def)

text \<open>
  Claim C4. When every call to the store raises, each of the four handlers of \<open>app.py\<close>
  answers with the response and status it gives when the store never raises, and leaves
  the tables as they were. When the store is configured, the caller gave a user id and
  the prediction succeeded, the handler makes exactly three insert attempts with a sleep
  of one second between consecutive attempts and none after the last (where with a
  working store it makes one insert); otherwise it does not call the store at all.
\<close>

theorem persistence_failure_is_swallowed:
  assumes raises: "\<forall>n. store_raises w n"
    and run: "(r, r_ok, u, t) \<in>
     {(predict_crop env data w, predict_crop env data (w\<lparr>store_raises := (\<lambda>n. False)\<rparr>),
         data ''user_id'', ''crop_recommendations''),
      (detect_disease env req w, detect_disease env req (w\<lparr>store_raises := (\<lambda>n. False)\<rparr>),
         map_option JStr (form_user_id req), ''disease_detections''),
      (predict_crop_yield env data w,
         predict_crop_yield env data (w\<lparr>store_raises := (\<lambda>n. False)\<rparr>),
         data ''user_id'', ''yield_predictions''),
      (recommend_fertilizer env data w,
         recommend_fertilizer env data (w\<lparr>store_raises := (\<lambda>n. False)\<rparr>),
         data ''user_id'', ''fertilizer_recommendations'')}"
  shows "fst r = fst r_ok \<and>
         tables (snd r) = tables w \<and>
         (if supabase env \<and> truthy_opt u \<and> payload (fst r) ''success'' = Some (JBool True)
          then trace (snd r) =
                 trace w @ [InsertFailed t, Slept 1, InsertFailed t, Slept 1, InsertFailed t] \<and>
               (\<exists>row. trace (snd r_ok) = trace w @ [Inserted t row] \<and>
                      tables (snd r_ok) = (tables w)(t := tables w t @ [row]))
          else snd r = w \<and> snd r_ok = w\<lparr>store_raises := (\<lambda>n. False)\<rparr>)"
proof -
  let ?ok = "w\<lparr>store_raises := (\<lambda>n. False)\<rparr>"
  from primary_runs [OF run] obtain resp resp' where
    same: "fst r = fst r_ok"
    and r: "(r = (resp, w) \<and> payload resp ''success'' \<noteq> Some (JBool True)) \<or>
        (\<exists>mk. r = (resp, save_with_retry env u t mk w) \<and>
           payload resp ''success'' = Some (JBool True))"
    and r': "(r_ok = (resp', ?ok) \<and> payload resp' ''success'' \<noteq> Some (JBool True)) \<or>
        (\<exists>mk. r_ok = (resp', save_with_retry env u t mk ?ok) \<and>
           payload resp' ''success'' = Some (JBool True))"
    by blast
  from r have fr: "fst r = resp" by auto
  from r' have fr': "fst r_ok = resp'" by auto
  from fr fr' same have eq: "resp' = resp" by simp
  show ?thesis
  proof (cases "payload resp ''success'' = Some (JBool True)")
    case False
    with r r' eq have "r = (resp, w)" "r_ok = (resp, ?ok)" by auto
    with False show ?thesis by simp
  next
    case True
    with r r' eq obtain mk mk' where
      s: "r = (resp, save_with_retry env u t mk w)"
        "r_ok = (resp, save_with_retry env u t mk' ?ok)"
      by auto
    show ?thesis
    proof (cases "supabase env \<and> truthy_opt u")
      case False
      with s save_with_retry_skipped [of env u t mk w] save_with_retry_skipped [of env u t mk' ?ok]
      show ?thesis by auto
    next
      case guard: True
      have "snd r = w\<lparr>calls := calls w + 3, clock := clock w + 2,
             trace := trace w @ [InsertFailed t, Slept 1, InsertFailed t, Slept 1, InsertFailed t]\<rparr>"
        using s(1) guard save_with_retry_all_raise [OF raises, of env u t mk] by simp
      then have fail: "tables (snd r) = tables w"
          "trace (snd r) =
             trace w @ [InsertFailed t, Slept 1, InsertFailed t, Slept 1, InsertFailed t]"
        by simp_all
      have "snd r_ok =
           ?ok\<lparr>tables := (tables ?ok)(t := tables ?ok t @ [mk' (isoformat env (clock ?ok))]),
             calls := Suc (calls ?ok),
             trace := trace ?ok @ [Inserted t (mk' (isoformat env (clock ?ok)))]\<rparr>"
        using s(2) guard save_with_retry_first_returns [of ?ok env u t mk'] by simp
      then have "trace (snd r_ok) = trace w @ [Inserted t (mk' (isoformat env (clock w)))] \<and>
          tables (snd r_ok) = (tables w)(t := tables w t @ [mk' (isoformat env (clock w))])"
        by simp
      then have ok: "\<exists>row. trace (snd r_ok) = trace w @ [Inserted t row] \<and>
                      tables (snd r_ok) = (tables w)(t := tables w t @ [row])"
        by blast
      from s(1) True have "payload (fst r) ''success'' = Some (JBool True)" by simp
      with guard same fail ok show ?thesis by simp
    qed
  qed
qed

theorem persistence_failure_is_swallowed_witness:
  "(\<forall>n. store_raises (example_world\<lparr>store_raises := (\<lambda>n. True)\<rparr>) n) \<and>
   fst (predict_crop example_env example_crop_body (example_world\<lparr>store_raises := (\<lambda>n. True)\<rparr>)) =
   fst (predict_crop example_env example_crop_body (example_world\<lparr>store_raises := (\<lambda>n. False)\<rparr>)) \<and>
   status (fst (predict_crop example_env example_crop_body
                  (example_world\<lparr>store_raises := (\<lambda>n. True)\<rparr>))) = 200 \<and>
   tables (snd (predict_crop example_env example_crop_body
                  (example_world\<lparr>store_raises := (\<lambda>n. True)\<rparr>))) = (\<lambda>t. []) \<and>
   trace (snd (predict_crop example_env example_crop_body
                 (example_world\<lparr>store_raises := (\<lambda>n. True)\<rparr>))) =
     [InsertFailed ''crop_recommendations'', Slept 1,
      InsertFailed ''crop_recommendations'', Slept 1,
      InsertFailed ''crop_recommendations'']"
proof -
  let ?w = "example_world\<lparr>store_raises := (\<lambda>n. True)\<rparr>"
  let ?r = "predict_crop example_env example_crop_body ?w"
  let ?r_ok = "predict_crop example_env example_crop_body (?w\<lparr>store_raises := (\<lambda>n. False)\<rparr>)"
  have raises: "\<forall>n. store_raises ?w n" by simp
  have run: "(?r, ?r_ok, example_crop_body ''user_id'', ''crop_recommendations'') \<in>
     {(predict_crop example_env example_crop_body ?w,
         predict_crop example_env example_crop_body (?w\<lparr>store_raises := (\<lambda>n. False)\<rparr>),
         example_crop_body ''user_id'', ''crop_recommendations''),
      (detect_disease example_env example_disease_request ?w,
         detect_disease example_env example_disease_request (?w\<lparr>store_raises := (\<lambda>n. False)\<rparr>),
         map_option JStr (form_user_id example_disease_request), ''disease_detections''),
      (predict_crop_yield example_env example_crop_body ?w,
         predict_crop_yield example_env example_crop_body (?w\<lparr>store_raises := (\<lambda>n. False)\<rparr>),
         example_crop_body ''user_id'', ''yield_predictions''),
      (recommend_fertilizer example_env example_crop_body ?w,
         recommend_fertilizer example_env example_crop_body (?w\<lparr>store_raises := (\<lambda>n. False)\<rparr>),
         example_crop_body ''user_id'', ''fertilizer_recommendations'')}"
    by (rule insertI1)
  have guard: "supabase example_env" "truthy_opt (example_crop_body ''user_id'')"
    by (simp_all add: example_env_def example_crop_body_def truthy_opt_def)
  have ok: "status (fst ?r) = 200" "payload (fst ?r) ''success'' = Some (JBool True)"
    by (simp_all add: predict_crop_def example_crop_run status_def payload_def)
  from persistence_failure_is_swallowed [OF raises run] guard ok
  have "fst ?r = fst ?r_ok \<and> tables (snd ?r) = tables ?w \<and>
     trace (snd ?r) = trace ?w @
       [InsertFailed ''crop_recommendations'', Slept 1,
        InsertFailed ''crop_recommendations'', Slept 1,
        InsertFailed ''crop_recommendations'']"
    by (simp only: if_True simp_thms)
  moreover have "tables ?w = (\<lambda>t. [])" "trace ?w = []" "?w\<lparr>store_raises := (\<lambda>n. False)\<rparr> =
      example_world\<lparr>store_raises := (\<lambda>n. False)\<rparr>"
    by (simp_all add: example_world_def)
  ultimately show ?thesis using raises ok(1) by (simp only: append_Nil simp_thms)
qed

end
